theory Spec2Isabelle
  imports Main
begin

section \<open>Python values used by the booking agent\<close>

text \<open>
  Exceptions of the Python code are values: a computation that may raise returns
  \<open>error + 'a\<close>, with \<open>Inl\<close> the exception.  Only the exception classes the modelled
  code can raise are listed.
\<close>

datatype error =
    ValueError | OverflowError | AttributeError | TypeError | IndexError | KeyError
  | HttpError "string option"
  | OtherError string

definition bind_err :: "error + 'a \<Rightarrow> ('a \<Rightarrow> error + 'b) \<Rightarrow> error + 'b" where
  "bind_err x f = (case x of Inl e \<Rightarrow> Inl e | Inr v \<Rightarrow> f v)"

subsection \<open>\<open>datetime.time\<close>, \<open>datetime.timedelta\<close> and \<open>datetime.datetime\<close>\<close>

text \<open>
  A \<open>datetime.time\<close> is its four fields; Python compares two naive times field by
  field, in this order.
\<close>

record time =
  hour :: nat
  minute :: nat
  second :: nat
  microsecond :: nat

definition valid_time :: "time \<Rightarrow> bool" where
  "valid_time t = (hour t < 24 \<and> minute t < 60 \<and> second t < 60 \<and> microsecond t < 1000000)"

definition time_le :: "time \<Rightarrow> time \<Rightarrow> bool" where
  "time_le a b =
     (hour a < hour b \<or> (hour a = hour b \<and>
       (minute a < minute b \<or> (minute a = minute b \<and>
         (second a < second b \<or> (second a = second b \<and> microsecond a \<le> microsecond b))))))"

abbreviation us_per_second :: int where "us_per_second \<equiv> 1000000"
abbreviation us_per_minute :: int where "us_per_minute \<equiv> 60000000"
abbreviation us_per_hour :: int where "us_per_hour \<equiv> 3600000000"
abbreviation us_per_day :: int where "us_per_day \<equiv> 86400000000"

text \<open>
  All datetimes of one turn carry the \<open>tzinfo\<close> of the context's timezone; Python adds a
  \<open>timedelta\<close> to, replaces fields of and compares such datetimes on their wall-clock
  fields.  A datetime is therefore its wall-clock reading, counted in microseconds from
  midnight of the day before 0001-01-01 (the day of proleptic ordinal 0), so that
  \<open>ordinal\<close> is Python's \<open>toordinal()\<close>.  The calendar fields year, month and day are
  only ever printed by the code and are not split out.
\<close>

datatype datetime = Datetime (micros: int)

definition ordinal :: "datetime \<Rightarrow> int" where
  "ordinal dt = micros dt div us_per_day"

definition weekday :: "datetime \<Rightarrow> int" where
  \<comment> \<open>\<open>datetime.weekday()\<close>: Monday is 0; 0001-01-01 (ordinal 1) is a Monday.\<close>
  "weekday dt = (ordinal dt + 6) mod 7"

definition time_of :: "datetime \<Rightarrow> time" where
  \<comment> \<open>\<open>datetime.time()\<close>\<close>
  "time_of dt =
     \<lparr> hour = nat ((micros dt mod us_per_day) div us_per_hour),
       minute = nat ((micros dt mod us_per_hour) div us_per_minute),
       second = nat ((micros dt mod us_per_minute) div us_per_second),
       microsecond = nat (micros dt mod us_per_second) \<rparr>"

definition mk_datetime :: "int \<Rightarrow> nat \<Rightarrow> nat \<Rightarrow> nat \<Rightarrow> nat \<Rightarrow> datetime" where
  \<comment> \<open>the datetime of day \<open>d\<close> (an ordinal) at \<open>h:m:s.u\<close>\<close>
  "mk_datetime d h m s u =
     Datetime (d * us_per_day + int h * us_per_hour + int m * us_per_minute
               + int s * us_per_second + int u)"

definition max_ordinal :: int where
  \<comment> \<open>\<open>date.max.toordinal()\<close>, 9999-12-31\<close>
  "max_ordinal = 3652059"

definition in_range :: "int \<Rightarrow> bool" where
  \<comment> \<open>the wall-clock readings of the years 1 to 9999\<close>
  "in_range us = (us_per_day \<le> us \<and> us < (max_ordinal + 1) * us_per_day)"

definition dt_le :: "datetime \<Rightarrow> datetime \<Rightarrow> bool" where
  "dt_le a b = (micros a \<le> micros b)"

definition dt_lt :: "datetime \<Rightarrow> datetime \<Rightarrow> bool" where
  "dt_lt a b = (micros a < micros b)"

text \<open>
  A \<open>timedelta\<close> is a number of microseconds; its constructor raises \<open>OverflowError\<close>
  when the normalised day count leaves \<open>\<plusminus>999999999\<close>.
\<close>

definition timedelta_us :: "int \<Rightarrow> error + int" where
  "timedelta_us us =
     (if - 999999999 \<le> us div us_per_day \<and> us div us_per_day \<le> 999999999
      then Inr us else Inl OverflowError)"

definition timedelta_days :: "int \<Rightarrow> error + int" where
  "timedelta_days n = timedelta_us (n * us_per_day)"

definition timedelta_hours :: "int \<Rightarrow> error + int" where
  "timedelta_hours n = timedelta_us (n * us_per_hour)"

definition timedelta_minutes :: "int \<Rightarrow> error + int" where
  "timedelta_minutes n = timedelta_us (n * us_per_minute)"

definition timedelta_weeks :: "int \<Rightarrow> error + int" where
  "timedelta_weeks n = timedelta_us (n * 7 * us_per_day)"

definition dt_add :: "datetime \<Rightarrow> int \<Rightarrow> error + datetime" where
  \<comment> \<open>\<open>dt + timedelta\<close>: \<open>OverflowError\<close> when the result leaves the years 1 to 9999\<close>
  "dt_add dt td =
     (if in_range (micros dt + td) then Inr (Datetime (micros dt + td)) else Inl OverflowError)"

definition replace_hm :: "datetime \<Rightarrow> nat \<Rightarrow> nat \<Rightarrow> error + datetime" where
  \<comment> \<open>\<open>dt.replace(hour=h, minute=m)\<close>: the seconds and microseconds stay\<close>
  "replace_hm dt h m =
     (if h < 24 \<and> m < 60
      then Inr (Datetime (ordinal dt * us_per_day + int h * us_per_hour + int m * us_per_minute
                          + micros dt mod us_per_minute))
      else Inl ValueError)"

definition replace_hm00 :: "datetime \<Rightarrow> nat \<Rightarrow> nat \<Rightarrow> error + datetime" where
  \<comment> \<open>\<open>dt.replace(hour=h, minute=m, second=0, microsecond=0)\<close>\<close>
  "replace_hm00 dt h m =
     (if h < 24 \<and> m < 60
      then Inr (Datetime (ordinal dt * us_per_day + int h * us_per_hour + int m * us_per_minute))
      else Inl ValueError)"

subsection \<open>Strings\<close>

text \<open>
  The user's text is taken as ASCII: \<open>str.lower\<close> maps \<open>A\<close>..\<open>Z\<close> to \<open>a\<close>..\<open>z\<close>, and the
  regular expression classes \<open>\d\<close>, \<open>\w\<close> and \<open>\s\<close> are their ASCII members.
\<close>

definition lower_char :: "char \<Rightarrow> char" where
  "lower_char c =
     (case map_of (zip ''ABCDEFGHIJKLMNOPQRSTUVWXYZ'' ''abcdefghijklmnopqrstuvwxyz'') c of
        Some l \<Rightarrow> l | None \<Rightarrow> c)"

definition lower :: "string \<Rightarrow> string" where
  "lower s = map lower_char s"

fun starts_with :: "string \<Rightarrow> string \<Rightarrow> bool" where
  "starts_with [] s = True"
| "starts_with (p # ps) [] = False"
| "starts_with (p # ps) (c # cs) = (p = c \<and> starts_with ps cs)"

fun sub_in :: "string \<Rightarrow> string \<Rightarrow> bool" where
  \<comment> \<open>Python's \<open>needle in hay\<close> on strings\<close>
  "sub_in needle [] = (needle = [])"
| "sub_in needle (c # cs) = (starts_with needle (c # cs) \<or> sub_in needle cs)"

definition is_digit :: "char \<Rightarrow> bool" where
  "is_digit c = (c \<in> set ''0123456789'')"

definition digit_val :: "char \<Rightarrow> nat" where
  "digit_val c =
     (case map_of (zip ''0123456789'' [0, 1, 2, 3, 4, 5, 6, 7, 8, 9]) c of
        Some d \<Rightarrow> d | None \<Rightarrow> 0)"

definition py_int :: "string option \<Rightarrow> error + nat" where
  \<comment> \<open>\<open>int(s)\<close> on a captured group: \<open>int(None)\<close> is a \<open>TypeError\<close>\<close>
  "py_int g =
     (case g of
        None \<Rightarrow> Inl TypeError
      | Some s \<Rightarrow>
          if s \<noteq> [] \<and> list_all is_digit s
          then Inr (foldl (\<lambda>a c. 10 * a + digit_val c) 0 s)
          else Inl ValueError)"

subsection \<open>Regular expressions: \<open>re.search\<close>\<close>

text \<open>
  The fragment of Python's \<open>re\<close> syntax the agent's patterns use: literals, the classes
  \<open>\d\<close>, \<open>\w\<close>, \<open>\s\<close> under a greedy bounded or unbounded repetition, concatenation,
  alternation, the greedy optional \<open>?\<close>, and numbered capture groups.  \<open>rmatch\<close> lists
  every way the backtracking matcher can match a prefix of the input, in the order in
  which it tries them (longest repetition first, left alternative first, the optional
  part present first); each entry is the unread rest of the input and the groups
  captured on the way.  The head of the list is the match Python reports.
\<close>

datatype cclass = Digit | WordCh | Space

datatype regex =
    Lit string
  | Rep cclass nat "nat option"
  | Cat regex regex
  | Alt regex regex
  | Opt regex
  | Grp nat regex

type_synonym match = "string option list"

definition in_class :: "cclass \<Rightarrow> char \<Rightarrow> bool" where
  "in_class k c =
     (case k of
        Digit \<Rightarrow> is_digit c
      | WordCh \<Rightarrow>
          c \<in> set ''abcdefghijklmnopqrstuvwxyzABCDEFGHIJKLMNOPQRSTUVWXYZ0123456789_''
      | Space \<Rightarrow>
          c \<in> set [CHR '' '', CHR 0x09, CHR 0x0A, CHR 0x0B, CHR 0x0C, CHR 0x0D,
                    CHR 0x1C, CHR 0x1D, CHR 0x1E, CHR 0x1F])"

fun rmatch :: "regex \<Rightarrow> string \<Rightarrow> match \<Rightarrow> (string \<times> match) list" where
  "rmatch (Lit l) s caps = (if starts_with l s then [(drop (length l) s, caps)] else [])"
| "rmatch (Rep k lo hi) s caps =
     (let run = length (takeWhile (in_class k) s);
          top = (case hi of None \<Rightarrow> run | Some h \<Rightarrow> min h run)
      in map (\<lambda>n. (drop n s, caps)) (rev [lo ..< Suc top]))"
| "rmatch (Cat a b) s caps = concat (map (\<lambda>r. rmatch b (fst r) (snd r)) (rmatch a s caps))"
| "rmatch (Alt a b) s caps = rmatch a s caps @ rmatch b s caps"
| "rmatch (Opt a) s caps = rmatch a s caps @ [(s, caps)]"
| "rmatch (Grp i a) s caps =
     map (\<lambda>r. (fst r, (snd r)[i := Some (take (length s - length (fst r)) s)]))
         (rmatch a s caps)"

fun ngroups :: "regex \<Rightarrow> nat" where
  "ngroups (Lit l) = 0"
| "ngroups (Rep k lo hi) = 0"
| "ngroups (Cat a b) = max (ngroups a) (ngroups b)"
| "ngroups (Alt a b) = max (ngroups a) (ngroups b)"
| "ngroups (Opt a) = ngroups a"
| "ngroups (Grp i a) = max i (ngroups a)"

fun search_from :: "regex \<Rightarrow> string \<Rightarrow> match option" where
  \<comment> \<open>the leftmost start position at which the pattern matches wins\<close>
  "search_from r [] =
     (case rmatch r [] (replicate (Suc (ngroups r)) None) of
        [] \<Rightarrow> None
      | res # _ \<Rightarrow> Some ((snd res)[0 := Some []]))"
| "search_from r (c # cs) =
     (case rmatch r (c # cs) (replicate (Suc (ngroups r)) None) of
        [] \<Rightarrow> search_from r cs
      | res # _ \<Rightarrow>
          Some ((snd res)[0 := Some (take (length (c # cs) - length (fst res)) (c # cs))]))"

definition re_search :: "regex \<Rightarrow> string \<Rightarrow> match option" where
  \<comment> \<open>\<open>re.search(pattern, s)\<close>: entry 0 of a match is the matched text, entry \<open>i\<close> is
      \<open>group(i)\<close>, \<open>None\<close> for a group that took no part\<close>
  "re_search r s = search_from r s"

definition group :: "match \<Rightarrow> nat \<Rightarrow> error + string option" where
  \<comment> \<open>\<open>match.group(i)\<close>: \<open>IndexError\<close> for a group the pattern does not have\<close>
  "group m i = (if i < length m then Inr (m ! i) else Inl IndexError)"

fun cat_all :: "regex list \<Rightarrow> regex" where
  "cat_all [] = Lit []"
| "cat_all [r] = r"
| "cat_all (r # rs) = Cat r (cat_all rs)"


section \<open>The data model of \<open>booking_agent.py\<close>\<close>

datatype intent =
    BookMeeting | CheckAvailability | RescheduleMeeting | CancelMeeting
  | ListMeetings | Greeting | Unclear

record parsed_booking_request =
  intent :: intent
  summary :: "string option"
  start_time :: "datetime option"
  end_time :: "datetime option"
  duration :: int
  attendees :: "string list"
  description :: "string option"
  meeting_type :: string
  urgency :: string
  flexibility :: string

text \<open>
  The reply of a turn is kept as the situation the handler reports together with the
  data its default text is formatted from; the wording (the default text, or the
  language model's paraphrase of it) is not modelled.
\<close>

datatype response =
    UnclearTime string
  | OutsideBusinessHours datetime
  | BookingSuccessful string datetime int
  | TimeConflictWithAlternatives datetime "datetime list"
  | NoAlternatives datetime
  | BookingError
  | GreetingReply
  | OtherReply string

record meeting_reference =
  reference :: string
  ref_type :: string

datatype pending =
    PendingRequest parsed_booking_request
  | PendingReschedule meeting_reference

record history_entry =
  user :: string
  timestamp :: string
  assistant :: "response option"

record conversation_context =
  user_id :: string
  last_intent :: "intent option"
  pending_booking :: "pending option"
  conversation_history :: "history_entry list"
  user_timezone :: string
  preferred_meeting_duration :: int
  business_hours_start :: time
  business_hours_end :: time

definition default_context :: conversation_context where
  \<comment> \<open>\<open>ConversationContext()\<close>\<close>
  "default_context =
     \<lparr> user_id = ''default_user'', last_intent = None, pending_booking = None,
       conversation_history = [], user_timezone = ''Asia/Kolkata'',
       preferred_meeting_duration = 60,
       business_hours_start = \<lparr> hour = 9, minute = 0, second = 0, microsecond = 0 \<rparr>,
       business_hours_end = \<lparr> hour = 17, minute = 0, second = 0, microsecond = 0 \<rparr> \<rparr>"

section \<open>The deterministic time parser\<close>

text \<open>
  The source reads the clock (\<open>datetime.now\<close> in the context's timezone) at the start of
  \<open>_parse_time_advanced\<close> and once more inside each resolver; the model takes one reading
  \<open>now\<close> for the whole call.
\<close>

definition weekday_table :: "(string \<times> int) list" where
  \<comment> \<open>the dictionary \<open>weekdays\<close> of \<open>_parse_next_weekday\<close> and \<open>_parse_weekday_time\<close>\<close>
  "weekday_table =
     [(''monday'', 0), (''tuesday'', 1), (''wednesday'', 2), (''thursday'', 3),
      (''friday'', 4), (''saturday'', 5), (''sunday'', 6),
      (''mon'', 0), (''tue'', 1), (''wed'', 2), (''thu'', 3), (''fri'', 4),
      (''sat'', 5), (''sun'', 6)]"

definition weekdays :: "string \<Rightarrow> int option" where
  "weekdays = map_of weekday_table"

definition opt_int :: "string option \<Rightarrow> error + nat" where
  \<comment> \<open>\<open>int(g) if g else 0\<close>\<close>
  "opt_int g = (case g of None \<Rightarrow> Inr 0 | Some s \<Rightarrow> if s = [] then Inr 0 else py_int (Some s))"

definition adjust_ampm :: "nat \<Rightarrow> string option \<Rightarrow> nat" where
  \<comment> \<open>the 12-hour adjustment each of the three clock-time resolvers repeats\<close>
  "adjust_ampm h ampm =
     (case ampm of
        None \<Rightarrow> h
      | Some a \<Rightarrow>
          if a = [] then h
          else if lower a = ''pm'' \<and> h \<noteq> 12 then h + 12
          else if lower a = ''am'' \<and> h = 12 then 0
          else h)"

definition group_lower :: "match \<Rightarrow> nat \<Rightarrow> error + string" where
  \<comment> \<open>\<open>match.group(i).lower()\<close>: \<open>AttributeError\<close> on a group that took no part\<close>
  "group_lower m i =
     bind_err (group m i) (\<lambda>g. case g of None \<Rightarrow> Inl AttributeError | Some s \<Rightarrow> Inr (lower s))"

definition parse_tomorrow_time :: "datetime \<Rightarrow> match \<Rightarrow> error + datetime option" where
  "parse_tomorrow_time now m =
     bind_err (bind_err (group m 1) py_int) (\<lambda>hour0.
     bind_err (bind_err (group m 2) opt_int) (\<lambda>minute0.
     bind_err (group m 3) (\<lambda>ampm.
     bind_err (timedelta_days 1) (\<lambda>td.
     bind_err (dt_add now td) (\<lambda>tomorrow.
     bind_err (replace_hm00 tomorrow (adjust_ampm hour0 ampm) minute0) (\<lambda>r.
     Inr (Some r)))))))"

definition parse_today_time :: "datetime \<Rightarrow> match \<Rightarrow> error + datetime option" where
  "parse_today_time now m =
     bind_err (bind_err (group m 1) py_int) (\<lambda>hour0.
     bind_err (bind_err (group m 2) opt_int) (\<lambda>minute0.
     bind_err (if length m - 1 \<ge> 3 then group m 3 else Inr None) (\<lambda>ampm.
     bind_err (replace_hm00 now (adjust_ampm hour0 ampm) minute0) (\<lambda>target_time.
     if dt_le target_time now
     then bind_err (timedelta_days 1) (\<lambda>td.
          bind_err (dt_add target_time td) (\<lambda>r. Inr (Some r)))
     else Inr (Some target_time)))))"

definition parse_next_weekday ::
  "conversation_context \<Rightarrow> datetime \<Rightarrow> match \<Rightarrow> error + datetime option" where
  "parse_next_weekday ctx now m =
     bind_err (group_lower m 1) (\<lambda>weekday_name.
     case weekdays weekday_name of
       None \<Rightarrow> Inr None
     | Some target_weekday \<Rightarrow>
         (let d0 = target_weekday - weekday now;
              days_ahead = (if d0 \<le> 0 then d0 + 7 else d0)
          in bind_err (timedelta_days days_ahead) (\<lambda>td.
             bind_err (dt_add now td) (\<lambda>target_date.
             bind_err (replace_hm00 target_date (hour (business_hours_start ctx))
                                                (minute (business_hours_start ctx))) (\<lambda>r.
             Inr (Some r))))))"

definition parse_weekday_time :: "datetime \<Rightarrow> match \<Rightarrow> error + datetime option" where
  "parse_weekday_time now m =
     bind_err (group_lower m 1) (\<lambda>weekday_name.
     bind_err (bind_err (group m 2) py_int) (\<lambda>hour0.
     bind_err (bind_err (group m 3) opt_int) (\<lambda>minute0.
     bind_err (group m 4) (\<lambda>ampm.
     let hour1 = adjust_ampm hour0 ampm in
     case weekdays weekday_name of
       None \<Rightarrow> Inr None
     | Some target_weekday \<Rightarrow>
         (let d0 = target_weekday - weekday now in
          bind_err
            (if d0 < 0 then Inr (d0 + 7)
             else if d0 = 0
             then bind_err (replace_hm00 now hour1 minute0) (\<lambda>target_time.
                  Inr (if dt_le target_time now then 7 else d0))
             else Inr d0) (\<lambda>days_ahead.
          bind_err (timedelta_days days_ahead) (\<lambda>td.
          bind_err (dt_add now td) (\<lambda>target_date.
          bind_err (replace_hm00 target_date hour1 minute0) (\<lambda>r.
          Inr (Some r))))))))))"

definition get_end_of_week :: "conversation_context \<Rightarrow> datetime \<Rightarrow> error + datetime option" where
  "get_end_of_week ctx now =
     (let d0 = 4 - weekday now;
          days_until_friday = (if d0 < 0 then d0 + 7 else d0)
      in bind_err (timedelta_days days_until_friday) (\<lambda>td.
         bind_err (dt_add now td) (\<lambda>friday.
         bind_err (replace_hm00 friday (hour (business_hours_end ctx))
                                       (minute (business_hours_end ctx))) (\<lambda>r.
         Inr (Some r)))))"

definition get_beginning_of_week ::
  "conversation_context \<Rightarrow> datetime \<Rightarrow> error + datetime option" where
  "get_beginning_of_week ctx now =
     (let days_until_monday = 7 - weekday now
      in bind_err (timedelta_days days_until_monday) (\<lambda>td.
         bind_err (dt_add now td) (\<lambda>monday.
         bind_err (replace_hm00 monday (hour (business_hours_start ctx))
                                       (minute (business_hours_start ctx))) (\<lambda>r.
         Inr (Some r)))))"

text \<open>The ten patterns of \<open>relative_patterns\<close>, in the order of the source.\<close>

definition clock_groups :: "nat \<Rightarrow> regex list" where
  \<comment> \<open>\<open>(\d{1,2}):?(\d{2})?\s*\<close>, its two groups numbered \<open>g\<close> and \<open>g + 1\<close>\<close>
  "clock_groups g =
     [Grp g (Rep Digit 1 (Some 2)), Opt (Lit '':''), Opt (Grp (g + 1) (Rep Digit 2 (Some 2))),
      Rep Space 0 None]"

definition am_pm :: "nat \<Rightarrow> regex" where
  \<comment> \<open>\<open>(am|pm)\<close> as group \<open>g\<close>\<close>
  "am_pm g = Grp g (Alt (Lit ''am'') (Lit ''pm''))"

definition pat_in_hours :: regex where
  \<comment> \<open>\<open>in (\d+) (?:hour|hr)s?\<close>\<close>
  "pat_in_hours =
     cat_all [Lit ''in '', Grp 1 (Rep Digit 1 None), Lit '' '',
              Alt (Lit ''hour'') (Lit ''hr''), Opt (Lit ''s'')]"

definition pat_in_minutes :: regex where
  \<comment> \<open>\<open>in (\d+) (?:minute|min)s?\<close>\<close>
  "pat_in_minutes =
     cat_all [Lit ''in '', Grp 1 (Rep Digit 1 None), Lit '' '',
              Alt (Lit ''minute'') (Lit ''min''), Opt (Lit ''s'')]"

definition pat_tomorrow_at :: regex where
  \<comment> \<open>\<open>tomorrow at (\d{1,2}):?(\d{2})?\s*(am|pm)?\<close>\<close>
  "pat_tomorrow_at = cat_all (Lit ''tomorrow at '' # clock_groups 1 @ [Opt (am_pm 3)])"

definition pat_next_word :: regex where
  \<comment> \<open>\<open>next (\w+)\<close>\<close>
  "pat_next_word = cat_all [Lit ''next '', Grp 1 (Rep WordCh 1 None)]"

definition pat_word_at :: regex where
  \<comment> \<open>\<open>(\w+) at (\d{1,2}):?(\d{2})?\s*(am|pm)?\<close>\<close>
  "pat_word_at =
     cat_all (Grp 1 (Rep WordCh 1 None) # Lit '' at '' # clock_groups 2 @ [Opt (am_pm 4)])"

definition pat_at :: regex where
  \<comment> \<open>\<open>at (\d{1,2}):?(\d{2})?\s*(am|pm)?\<close>\<close>
  "pat_at = cat_all (Lit ''at '' # clock_groups 1 @ [Opt (am_pm 3)])"

definition pat_clock_ampm :: regex where
  \<comment> \<open>\<open>(\d{1,2}):?(\d{2})?\s*(am|pm)\<close>\<close>
  "pat_clock_ampm = cat_all (clock_groups 1 @ [am_pm 3])"

definition pat_end_of_week :: regex where
  \<comment> \<open>\<open>end of (?:the )?week\<close>\<close>
  "pat_end_of_week = cat_all [Lit ''end of '', Opt (Lit ''the ''), Lit ''week'']"

definition pat_beginning_of_week :: regex where
  \<comment> \<open>\<open>beginning of (?:the )?week\<close>\<close>
  "pat_beginning_of_week = cat_all [Lit ''beginning of '', Opt (Lit ''the ''), Lit ''week'']"

definition pat_next_week_same_time :: regex where
  "pat_next_week_same_time = Lit ''next week same time''"

definition relative_patterns ::
  "conversation_context \<Rightarrow> datetime \<Rightarrow> (regex \<times> (match \<Rightarrow> error + datetime option)) list" where
  "relative_patterns ctx now =
     [(pat_in_hours, \<lambda>m.
         bind_err (bind_err (group m 1) py_int) (\<lambda>n.
         bind_err (timedelta_hours (int n)) (\<lambda>td.
         bind_err (dt_add now td) (\<lambda>r. Inr (Some r))))),
      (pat_in_minutes, \<lambda>m.
         bind_err (bind_err (group m 1) py_int) (\<lambda>n.
         bind_err (timedelta_minutes (int n)) (\<lambda>td.
         bind_err (dt_add now td) (\<lambda>r. Inr (Some r))))),
      (pat_tomorrow_at, parse_tomorrow_time now),
      (pat_next_word, parse_next_weekday ctx now),
      (pat_word_at, parse_weekday_time now),
      (pat_at, parse_today_time now),
      (pat_clock_ampm, parse_today_time now),
      (pat_end_of_week, \<lambda>m. get_end_of_week ctx now),
      (pat_beginning_of_week, \<lambda>m. get_beginning_of_week ctx now),
      (pat_next_week_same_time, \<lambda>m.
         bind_err (timedelta_weeks 1) (\<lambda>td.
         bind_err (dt_add now td) (\<lambda>r. Inr (Some r))))]"

fun try_patterns ::
  "(regex \<times> (match \<Rightarrow> error + datetime option)) list \<Rightarrow> string \<Rightarrow> datetime option" where
  \<comment> \<open>the loop of \<open>_parse_time_advanced\<close>: the first pattern that matches and whose
      resolver returns decides, also when it returns \<open>None\<close>; a resolver that raises is
      skipped\<close>
  "try_patterns [] s = None"
| "try_patterns (pr # rest) s =
     (case re_search (fst pr) s of
        None \<Rightarrow> try_patterns rest s
      | Some m \<Rightarrow>
          (case snd pr m of
             Inl e \<Rightarrow> try_patterns rest s
           | Inr r \<Rightarrow> r))"

definition parse_time_advanced ::
  "conversation_context \<Rightarrow> datetime \<Rightarrow> string \<Rightarrow> datetime option" where
  "parse_time_advanced ctx now user_input =
     try_patterns (relative_patterns ctx now) (lower user_input)"

section \<open>The deterministic fallback extractor\<close>

definition pat_dur_hours :: regex where
  \<comment> \<open>\<open>(\d+)\s*(?:hour|hr)s?\<close>\<close>
  "pat_dur_hours =
     cat_all [Grp 1 (Rep Digit 1 None), Rep Space 0 None, Alt (Lit ''hour'') (Lit ''hr''),
              Opt (Lit ''s'')]"

definition pat_dur_minutes :: regex where
  \<comment> \<open>\<open>(\d+)\s*(?:minute|min)s?\<close>\<close>
  "pat_dur_minutes =
     cat_all [Grp 1 (Rep Digit 1 None), Rep Space 0 None, Alt (Lit ''minute'') (Lit ''min''),
              Opt (Lit ''s'')]"

definition pat_dur_h_m :: regex where
  \<comment> \<open>\<open>(\d+)\s*h\s*(\d+)\s*m\<close>\<close>
  "pat_dur_h_m =
     cat_all [Grp 1 (Rep Digit 1 None), Rep Space 0 None, Lit ''h'', Rep Space 0 None,
              Grp 2 (Rep Digit 1 None), Rep Space 0 None, Lit ''m'']"

definition duration_patterns :: "(regex \<times> bool) list" where
  \<comment> \<open>each pattern with the value of \<open>'hour' in pattern or 'hr' in pattern\<close> on its text\<close>
  "duration_patterns = [(pat_dur_hours, True), (pat_dur_minutes, False), (pat_dur_h_m, False)]"

fun parse_duration :: "(regex \<times> bool) list \<Rightarrow> string \<Rightarrow> int \<Rightarrow> error + int" where
  \<comment> \<open>the loop over \<open>duration_patterns\<close>, leaving at the first pattern that matches\<close>
  "parse_duration [] s dflt = Inr dflt"
| "parse_duration (pb # rest) s dflt =
     (case re_search (fst pb) s of
        None \<Rightarrow> parse_duration rest s dflt
      | Some m \<Rightarrow>
          if length m - 1 = 1
          then bind_err (bind_err (group m 1) py_int) (\<lambda>num.
               Inr (if snd pb then int num * 60 else int num))
          else bind_err (bind_err (group m 1) py_int) (\<lambda>hours.
               bind_err (bind_err (group m 2) py_int) (\<lambda>minutes.
               Inr (int hours * 60 + int minutes))))"

definition fallback_summary :: "string \<Rightarrow> string" where
  "fallback_summary user_input_lower =
     (if sub_in ''interview'' user_input_lower then ''Interview''
      else if sub_in ''call'' user_input_lower then ''Call''
      else if sub_in ''appointment'' user_input_lower then ''Appointment''
      else if sub_in ''standup'' user_input_lower then ''Standup''
      else ''Meeting'')"

definition fallback_flexibility :: "string \<Rightarrow> string" where
  "fallback_flexibility user_input_lower =
     (if list_ex (\<lambda>word. sub_in word user_input_lower) [''flexible'', ''around'', ''roughly'']
      then ''flexible'' else ''rigid'')"

definition fallback_parsing ::
  "conversation_context \<Rightarrow> datetime \<Rightarrow> string \<Rightarrow> error + parsed_booking_request" where
  "fallback_parsing ctx now user_input =
     (let user_input_lower = lower user_input in
      bind_err (parse_duration duration_patterns user_input_lower
                  (preferred_meeting_duration ctx)) (\<lambda>dur.
      Inr \<lparr> intent = BookMeeting,
            summary = Some (fallback_summary user_input_lower),
            start_time = parse_time_advanced ctx now user_input_lower,
            end_time = None,
            duration = dur,
            attendees = [],
            description = None,
            meeting_type = ''meeting'',
            urgency = ''normal'',
            flexibility = fallback_flexibility user_input_lower \<rparr>))"


section \<open>The slot resolution engine\<close>

text \<open>
  The calendar collaborator answers \<open>check_availability(start, duration)\<close> with a
  boolean and never raises.  For one turn it is a function of the query (the service
  caches its answers for five minutes); the calls a handler makes are recorded in
  order.
\<close>

type_synonym calendar = "datetime \<Rightarrow> int \<Rightarrow> bool"

datatype cal_call =
    CallCheckAvailability datetime int
  | CallCreateEvent "string option" datetime int "string option"
  | CallRescheduleEvent meeting_reference datetime int

definition check_business_hours :: "conversation_context \<Rightarrow> datetime \<Rightarrow> bool" where
  "check_business_hours ctx dt =
     (time_le (business_hours_start ctx) (time_of dt) \<and>
      time_le (time_of dt) (business_hours_end ctx))"

definition search_days :: "string \<Rightarrow> nat" where
  "search_days flex =
     (if flex = ''very_flexible'' then 14 else if flex = ''flexible'' then 7 else 2)"

definition time_increments :: "string \<Rightarrow> int list" where
  "time_increments flex =
     (if flex = ''very_flexible'' then [30, 60, 120]
      else if flex = ''flexible'' then [30, 60]
      else [30])"

definition increment_of :: "string \<Rightarrow> nat \<Rightarrow> int" where
  \<comment> \<open>\<open>time_increments[0] if day_offset == 0 else time_increments[-1]\<close>\<close>
  "increment_of flex day_offset =
     (if day_offset = 0 then hd (time_increments flex) else last (time_increments flex))"

datatype slot_scan = Full (slots: "datetime list") | Partial (slots: "datetime list")

text \<open>
  The \<open>while\<close> loop of \<open>_suggest_alternative_times\<close> over one day: \<open>Full\<close> is the
  \<open>return suggestions\<close> inside the loop (five slots collected), \<open>Partial\<close> its normal
  end.
\<close>

function scan_day ::
  "calendar \<Rightarrow> string \<Rightarrow> nat \<Rightarrow> int \<Rightarrow> datetime \<Rightarrow> datetime \<Rightarrow> datetime list \<Rightarrow> cal_call list
   \<Rightarrow> (error + slot_scan) \<times> cal_call list" where
  "scan_day cal flex day_offset dur slot_end current_time suggestions log =
     (case bind_err (timedelta_minutes dur) (dt_add current_time) of
        Inl e \<Rightarrow> (Inl e, log)
      | Inr fin \<Rightarrow>
          if dt_le fin slot_end
          then (if cal current_time dur \<and> length (suggestions @ [current_time]) \<ge> 5
                then (Inr (Full (suggestions @ [current_time])),
                      log @ [CallCheckAvailability current_time dur])
                else (case bind_err (timedelta_minutes (increment_of flex day_offset))
                                    (dt_add current_time) of
                        Inl e \<Rightarrow> (Inl e, log @ [CallCheckAvailability current_time dur])
                      | Inr nxt \<Rightarrow>
                          scan_day cal flex day_offset dur slot_end nxt
                            (if cal current_time dur then suggestions @ [current_time]
                             else suggestions)
                            (log @ [CallCheckAvailability current_time dur])))
          else (Inr (Partial suggestions), log))"
  by pat_completeness auto


termination scan_day
proof (relation "measure (\<lambda>(cal, flex, day_offset, dur, slot_end, current_time, suggestions, log).
          nat (micros slot_end - micros current_time - dur * us_per_minute + 1))", goal_cases)
  case 1
  show ?case by simp
next
  case (2 cal flex day_offset dur slot_end current_time suggestions log fin nxt)
  have step: "micros r = micros current_time + n * us_per_minute"
    if "bind_err (timedelta_minutes n) (dt_add current_time) = Inr r" for n r
    using that
    by (auto simp: bind_err_def timedelta_minutes_def timedelta_us_def dt_add_def
             split: sum.splits if_splits)
  have f: "micros fin = micros current_time + dur * us_per_minute"
    using 2(1) by (rule step)
  have n: "micros nxt = micros current_time + increment_of flex day_offset * us_per_minute"
    using 2(4) by (rule step)
  have "micros current_time + dur * us_per_minute \<le> micros slot_end"
    using 2(2) f by (simp add: dt_le_def)
  moreover have "0 < increment_of flex day_offset"
    by (simp add: increment_of_def time_increments_def)
  ultimately show ?case using n by simp
qed

declare scan_day.simps [simp del]

fun scan_days ::
  "calendar \<Rightarrow> conversation_context \<Rightarrow> string \<Rightarrow> int \<Rightarrow> datetime \<Rightarrow> nat list \<Rightarrow> datetime list
   \<Rightarrow> cal_call list \<Rightarrow> (error + datetime list) \<times> cal_call list" where
  \<comment> \<open>the \<open>for day_offset in range(search_days)\<close> loop\<close>
  "scan_days cal ctx flex dur base_time [] suggestions log = (Inr suggestions, log)"
| "scan_days cal ctx flex dur base_time (day_offset # rest) suggestions log =
     (case bind_err (timedelta_days (int day_offset)) (dt_add base_time) of
        Inl e \<Rightarrow> (Inl e, log)
      | Inr current_day \<Rightarrow>
          (case replace_hm current_day (hour (business_hours_start ctx))
                                       (minute (business_hours_start ctx)) of
             Inl e \<Rightarrow> (Inl e, log)
           | Inr slot_start \<Rightarrow>
               (case replace_hm current_day (hour (business_hours_end ctx))
                                            (minute (business_hours_end ctx)) of
                  Inl e \<Rightarrow> (Inl e, log)
                | Inr slot_end \<Rightarrow>
                    (case scan_day cal flex day_offset dur slot_end slot_start suggestions log of
                       (Inl e, log1) \<Rightarrow> (Inl e, log1)
                     | (Inr (Full found), log1) \<Rightarrow> (Inr found, log1)
                     | (Inr (Partial found), log1) \<Rightarrow>
                         scan_days cal ctx flex dur base_time rest found log1))))"

definition suggest_alternative_times ::
  "calendar \<Rightarrow> conversation_context \<Rightarrow> datetime \<Rightarrow> int \<Rightarrow> string
   \<Rightarrow> (error + datetime list) \<times> cal_call list" where
  "suggest_alternative_times cal ctx requested_time dur flex =
     scan_days cal ctx flex dur requested_time [0 ..< search_days flex] [] []"

section \<open>The dialogue orchestrator\<close>

definition handle_booking_request ::
  "calendar \<Rightarrow> conversation_context \<Rightarrow> parsed_booking_request
   \<Rightarrow> response \<times> conversation_context \<times> cal_call list" where
  \<comment> \<open>\<open>request.summary.lower()\<close> raises \<open>AttributeError\<close> on a summary that is \<open>None\<close>; the
      handler's \<open>except\<close> turns every exception into the error reply\<close>
  "handle_booking_request cal ctx request =
     (case start_time request of
        None \<Rightarrow>
          (case summary request of
             None \<Rightarrow> (BookingError, ctx, [])
           | Some title \<Rightarrow> (UnclearTime (lower title), ctx, []))
      | Some requested_time \<Rightarrow>
          if \<not> check_business_hours ctx requested_time
          then (OutsideBusinessHours requested_time, ctx, [])
          else if cal requested_time (duration request)
          then (let log = [CallCheckAvailability requested_time (duration request),
                           CallCreateEvent (summary request) requested_time (duration request)
                             (description request)];
                    ctx1 = ctx\<lparr> last_intent := Some BookMeeting, pending_booking := None \<rparr>
                in case summary request of
                     None \<Rightarrow> (BookingError, ctx1, log)
                   | Some title \<Rightarrow>
                       (BookingSuccessful (lower title) requested_time (duration request),
                        ctx1, log))
          else (case suggest_alternative_times cal ctx requested_time (duration request)
                       (flexibility request) of
                  (Inl e, log) \<Rightarrow>
                    (BookingError, ctx,
                     CallCheckAvailability requested_time (duration request) # log)
                | (Inr alternatives, log) \<Rightarrow>
                    if alternatives \<noteq> []
                    then (TimeConflictWithAlternatives requested_time (take 3 alternatives),
                          ctx\<lparr> pending_booking := Some (PendingRequest request) \<rparr>,
                          CallCheckAvailability requested_time (duration request) # log)
                    else (NoAlternatives requested_time, ctx,
                          CallCheckAvailability requested_time (duration request) # log)))"

text \<open>
  One turn as \<open>run\<close> receives it: the user's text, the two clock readings, and what the
  collaborators answer during the turn.  \<open>recognized\<close> is the value of
  \<open>_recognize_intent\<close> (which never raises); \<open>extracted\<close> is the request
  \<open>_extract_booking_details\<close> builds from the language model's JSON, \<open>None\<close> when the
  JSON is invalid or the extraction raises, so that \<open>_fallback_parsing\<close> runs.
  The availability, listing, cancelling and unclear handlers write nothing to the
  context; their reply is \<open>plain_reply\<close>, and the calendar calls they make are not
  listed.
\<close>

record turn =
  user_text :: string
  clock :: datetime
  stamp :: string
  recognized :: intent
  extracted :: "parsed_booking_request option"
  cal :: calendar
  rescheduled :: bool
  plain_reply :: response

definition extract_booking_details ::
  "conversation_context \<Rightarrow> turn \<Rightarrow> error + parsed_booking_request" where
  "extract_booking_details ctx t =
     (case extracted t of
        Some request \<Rightarrow> Inr request
      | None \<Rightarrow> fallback_parsing ctx (clock t) (user_text t))"

definition reference_patterns :: "regex list" where
  \<comment> \<open>the four patterns of \<open>_extract_meeting_reference\<close>\<close>
  "reference_patterns =
     [cat_all [Grp 1 (cat_all [Rep Digit 1 (Some 2), Lit '':'', Rep Digit 2 (Some 2)]),
               Rep Space 0 None, Opt (am_pm 2)],
      Grp 1 (foldr Alt (map Lit [''tomorrow'', ''today'', ''monday'', ''tuesday'', ''wednesday'',
                                  ''thursday'', ''friday'', ''saturday''])
                       (Lit ''sunday'')),
      cat_all [Lit ''meeting with '', Grp 1 (Rep WordCh 1 None)],
      cat_all [Grp 1 (Rep WordCh 1 None), Lit '' meeting'']]"

fun first_reference :: "regex list \<Rightarrow> string \<Rightarrow> meeting_reference option" where
  "first_reference [] s = None"
| "first_reference (p # ps) s =
     (case re_search p s of
        None \<Rightarrow> first_reference ps s
      | Some m \<Rightarrow>
          (case m of
             Some whole # _ \<Rightarrow> Some \<lparr> reference = whole, ref_type = ''pattern_match'' \<rparr>
           | _ \<Rightarrow> None))"

definition extract_meeting_reference :: "string \<Rightarrow> meeting_reference option" where
  "extract_meeting_reference user_input = first_reference reference_patterns (lower user_input)"

definition handle_reschedule_meeting ::
  "conversation_context \<Rightarrow> turn \<Rightarrow> response \<times> conversation_context \<times> cal_call list" where
  "handle_reschedule_meeting ctx t =
     (case extract_booking_details ctx t of
        Inl e \<Rightarrow> (OtherReply ''reschedule_error'', ctx, [])
      | Inr new_time_info \<Rightarrow>
          (case extract_meeting_reference (user_text t) of
             None \<Rightarrow> (OtherReply ''reschedule_which_meeting'', ctx, [])
           | Some meeting_info \<Rightarrow>
               (case start_time new_time_info of
                  None \<Rightarrow>
                    (OtherReply ''reschedule_new_time'',
                     ctx\<lparr> pending_booking := Some (PendingReschedule meeting_info) \<rparr>, [])
                | Some new_start \<Rightarrow>
                    if (cal t) new_start (duration new_time_info)
                    then (OtherReply (if rescheduled t then ''rescheduled''
                                      else ''reschedule_trouble''),
                          ctx,
                          [CallCheckAvailability new_start (duration new_time_info),
                           CallRescheduleEvent meeting_info new_start (duration new_time_info)])
                    else (case suggest_alternative_times (cal t) ctx new_start
                                 (duration new_time_info) ''flexible'' of
                            (Inl e, log) \<Rightarrow>
                              (OtherReply ''reschedule_error'', ctx,
                               CallCheckAvailability new_start (duration new_time_info) # log)
                          | (Inr alternatives, log) \<Rightarrow>
                              (if alternatives \<noteq> []
                               then TimeConflictWithAlternatives new_start (take 3 alternatives)
                               else NoAlternatives new_start,
                               ctx,
                               CallCheckAvailability new_start (duration new_time_info) # log)))))"

definition dispatch ::
  "conversation_context \<Rightarrow> turn \<Rightarrow> error + response \<times> conversation_context \<times> cal_call list" where
  \<comment> \<open>the \<open>if\<close>/\<open>elif\<close> chain of \<open>run\<close>; \<open>_extract_booking_details\<close> is called outside the
      booking handler's \<open>try\<close>, so what its fallback raises reaches \<open>run\<close>\<close>
  "dispatch ctx t =
     (case recognized t of
        Greeting \<Rightarrow> Inr (GreetingReply, ctx, [])
      | BookMeeting \<Rightarrow>
          bind_err (extract_booking_details ctx t) (\<lambda>booking_request.
          Inr (handle_booking_request (cal t) ctx booking_request))
      | RescheduleMeeting \<Rightarrow> Inr (handle_reschedule_meeting ctx t)
      | _ \<Rightarrow> Inr (plain_reply t, ctx, []))"

definition keep_last :: "nat \<Rightarrow> 'a list \<Rightarrow> 'a list" where
  \<comment> \<open>the slice \<open>xs[-n:]\<close> for \<open>n > 0\<close>\<close>
  "keep_last n xs = drop (length xs - n) xs"

definition set_assistant :: "response \<Rightarrow> history_entry list \<Rightarrow> history_entry list" where
  \<comment> \<open>\<open>conversation_history[-1]["assistant"] = response\<close>\<close>
  "set_assistant r h =
     (if h = [] then h else butlast h @ [(last h)\<lparr> assistant := Some r \<rparr>])"

definition run :: "conversation_context \<Rightarrow> turn \<Rightarrow> response \<times> conversation_context" where
  "run ctx t =
     (let appended = conversation_history ctx
                       @ [\<lparr> user = user_text t, timestamp = stamp t, assistant = None \<rparr>];
          ctx1 = ctx\<lparr> conversation_history :=
                        (if length appended > 10 then keep_last 10 appended else appended) \<rparr>
      in case dispatch ctx1 t of
           Inl e \<Rightarrow> (OtherReply ''unexpected_error'', ctx1)
         | Inr (reply, ctx2, log) \<Rightarrow>
             (reply,
              ctx2\<lparr> conversation_history := set_assistant reply (conversation_history ctx2),
                    last_intent := Some (recognized t) \<rparr>))"

fun run_all :: "conversation_context \<Rightarrow> turn list \<Rightarrow> conversation_context" where
  \<comment> \<open>the context after a sequence of turns\<close>
  "run_all ctx [] = ctx"
| "run_all ctx (t # ts) = run_all (snd (run ctx t)) ts"


section \<open>The calendar collaborator: \<open>calendar_service.py\<close>\<close>

text \<open>
  The Google Calendar client is an oracle: each request either returns or raises
  (\<open>HttpError\<close> with its optional \<open>reason\<close>, or any other exception).  An event of the
  API is the dictionary the service reads: every key may be missing.  \<open>from_iso\<close> is
  \<open>datetime.fromisoformat\<close> as \<open>_parse_datetime\<close> uses it (\<open>None\<close> where it raises).
  The service's two caches hold the entries that have not expired when the operation
  is called; the rate limiter only sleeps and is left out, and of the texts the service
  formats only the parts that do not print a date are kept.
\<close>

record api_time =
  date_time :: "string option"
  date_only :: "string option"

record api_event =
  ev_id :: "string option"
  ev_summary :: "string option"
  ev_status :: "string option"
  ev_start :: "api_time option"
  ev_end :: "api_time option"
  ev_description :: "string option"
  ev_location :: "string option"
  ev_attendees :: "string option list"
  ev_link :: "string option"

record event_body =
  eb_summary :: "string option"
  eb_description :: string
  eb_start :: datetime
  eb_end :: datetime
  eb_location :: "string option"
  eb_attendees :: "string list option"

record google_api =
  events_list :: "datetime \<Rightarrow> datetime \<Rightarrow> nat option \<Rightarrow> error + api_event list"
  events_insert :: "event_body \<Rightarrow> bool \<Rightarrow> error + api_event"
  events_delete :: "string \<Rightarrow> error + unit"
  events_get :: "string \<Rightarrow> error + api_event"
  events_update :: "string \<Rightarrow> api_event \<Rightarrow> error + api_event"
  from_iso :: "string \<Rightarrow> datetime option"
  to_iso :: "datetime \<Rightarrow> string"

record upcoming_event =
  ue_id :: "string option"
  ue_summary :: string
  ue_start :: datetime
  ue_end :: datetime
  ue_duration :: int
  ue_description :: string
  ue_location :: string
  ue_attendees :: "string list"

record service_state =
  availability_cache :: "datetime \<times> datetime \<Rightarrow> bool option"
  upcoming_cache :: "nat \<times> datetime \<times> datetime \<Rightarrow> upcoming_event list option"

definition get_or :: "'a option \<Rightarrow> 'a \<Rightarrow> 'a" where
  \<comment> \<open>\<open>dict.get(key, default)\<close> on an optional key\<close>
  "get_or v dflt = (case v of None \<Rightarrow> dflt | Some x \<Rightarrow> x)"

definition is_cancelled :: "api_event \<Rightarrow> bool" where
  \<comment> \<open>\<open>event.get('status', '').lower() == 'cancelled'\<close>\<close>
  "is_cancelled e = (lower (get_or (ev_status e) []) = ''cancelled'')"

definition event_time_string :: "api_time option \<Rightarrow> error + string option" where
  \<comment> \<open>\<open>event['start'].get('dateTime', event['start'].get('date'))\<close>: \<open>KeyError\<close> on an
      event without the key\<close>
  "event_time_string t =
     (case t of
        None \<Rightarrow> Inl KeyError
      | Some d \<Rightarrow> Inr (case date_time d of Some x \<Rightarrow> Some x | None \<Rightarrow> date_only d))"

definition parse_datetime :: "google_api \<Rightarrow> string option \<Rightarrow> datetime option" where
  \<comment> \<open>\<open>_parse_datetime\<close> catches what the parsing raises and returns \<open>None\<close>\<close>
  "parse_datetime api s = (case s of None \<Rightarrow> None | Some str \<Rightarrow> from_iso api str)"

fun conflict_starts :: "google_api \<Rightarrow> api_event list \<Rightarrow> error + datetime option list" where
  \<comment> \<open>the loop of \<open>check_availability\<close> that logs the conflicting events\<close>
  "conflict_starts api [] = Inr []"
| "conflict_starts api (e # es) =
     bind_err (event_time_string (ev_start e)) (\<lambda>s.
     bind_err (conflict_starts api es) (\<lambda>rest.
     Inr (parse_datetime api s # rest)))"

definition check_availability_body ::
  "google_api \<Rightarrow> service_state \<Rightarrow> datetime \<Rightarrow> int \<Rightarrow> int \<Rightarrow> (error + bool) \<times> service_state" where
  \<comment> \<open>the \<open>try\<close> block of \<open>check_availability\<close>, with the cache as it leaves it\<close>
  "check_availability_body api st start dur buffer_minutes =
     (case bind_err (timedelta_minutes buffer_minutes) (\<lambda>buffer_delta.
           bind_err (dt_add start (- buffer_delta)) (\<lambda>check_start.
           bind_err (bind_err (timedelta_minutes dur) (dt_add start)) (\<lambda>slot_end.
           bind_err (dt_add slot_end buffer_delta) (\<lambda>check_end.
           Inr (check_start, check_end))))) of
        Inl e \<Rightarrow> (Inl e, st)
      | Inr (check_start, check_end) \<Rightarrow>
          (case availability_cache st (check_start, check_end) of
             Some result \<Rightarrow> (Inr result, st)
           | None \<Rightarrow>
               (case events_list api check_start check_end None of
                  Inl e \<Rightarrow> (Inl e, st)
                | Inr events \<Rightarrow>
                    (let active_events = filter (\<lambda>e. \<not> is_cancelled e) events;
                         is_available = (active_events = []);
                         st1 = st\<lparr> availability_cache :=
                                    (availability_cache st)
                                      ((check_start, check_end) \<mapsto> is_available) \<rparr>
                     in if is_available then (Inr True, st1)
                        else (case conflict_starts api active_events of
                                Inl e \<Rightarrow> (Inl e, st1)
                              | Inr starts \<Rightarrow> (Inr False, st1))))))"

definition check_availability ::
  "google_api \<Rightarrow> service_state \<Rightarrow> datetime \<Rightarrow> int \<Rightarrow> int \<Rightarrow> bool \<times> service_state" where
  \<comment> \<open>both \<open>except\<close> clauses return \<open>False\<close>\<close>
  "check_availability api st start dur buffer_minutes =
     (case check_availability_body api st start dur buffer_minutes of
        (Inl e, st1) \<Rightarrow> (False, st1)
      | (Inr available, st1) \<Rightarrow> (available, st1))"

definition create_event_body ::
  "google_api \<Rightarrow> string option \<Rightarrow> datetime \<Rightarrow> int \<Rightarrow> string \<Rightarrow> string list option
   \<Rightarrow> string \<Rightarrow> bool \<Rightarrow> error + string" where
  \<comment> \<open>the \<open>try\<close> block of \<open>create_event\<close>; \<open>_clear_cache_for_timerange\<close> removes the keys
      that start with a method name, and the keys are MD5 digests, so no entry goes\<close>
  "create_event_body api title start dur descr guests location send_notifications =
     bind_err (bind_err (timedelta_minutes dur) (dt_add start)) (\<lambda>slot_end.
     bind_err (events_insert api
                 \<lparr> eb_summary = title, eb_description = descr, eb_start = start,
                   eb_end = slot_end,
                   eb_location = (if location = [] then None else Some location),
                   eb_attendees = (case guests of
                                     None \<Rightarrow> None
                                   | Some g \<Rightarrow> if g = [] then None else Some g) \<rparr>
                 send_notifications) (\<lambda>created_event.
     Inr (''Successfully booked: '' @ get_or title ''None''
          @ (if get_or (ev_link created_event) [] = [] then []
             else '' [View in Calendar]('' @ get_or (ev_link created_event) [] @ '')''))))"

definition error_text :: "error \<Rightarrow> string" where
  \<comment> \<open>what the failure message says about an exception other than \<open>HttpError\<close>\<close>
  "error_text e = (case e of OtherError msg \<Rightarrow> msg | _ \<Rightarrow> ''error'')"

definition create_event ::
  "google_api \<Rightarrow> string option \<Rightarrow> datetime \<Rightarrow> int \<Rightarrow> string \<Rightarrow> string list option
   \<Rightarrow> string \<Rightarrow> bool \<Rightarrow> string" where
  \<comment> \<open>both \<open>except\<close> clauses return a message\<close>
  "create_event api title start dur descr guests location send_notifications =
     (case create_event_body api title start dur descr guests location send_notifications of
        Inl (HttpError reason) \<Rightarrow>
          '' Failed to create event: '' @ get_or reason ''Unknown error''
      | Inl e \<Rightarrow> '' Failed to create event: '' @ error_text e
      | Inr message \<Rightarrow> message)"

definition failure_text :: "error \<Rightarrow> string" where
  \<comment> \<open>the message of the two \<open>except\<close> clauses of \<open>create_event\<close>\<close>
  "failure_text e =
     '' Failed to create event: ''
     @ (case e of HttpError reason \<Rightarrow> get_or reason ''Unknown error'' | _ \<Rightarrow> error_text e)"

definition minutes_between :: "datetime \<Rightarrow> datetime \<Rightarrow> int" where
  \<comment> \<open>\<open>int((end - start).total_seconds() / 60)\<close>: \<open>int\<close> rounds towards zero\<close>
  "minutes_between a b =
     (let d = micros b - micros a
      in if 0 \<le> d then d div us_per_minute else - ((- d) div us_per_minute))"

fun format_events :: "google_api \<Rightarrow> api_event list \<Rightarrow> error + upcoming_event list" where
  \<comment> \<open>the loop of \<open>get_upcoming_events\<close> over the events the API returned\<close>
  "format_events api [] = Inr []"
| "format_events api (e # es) =
     (if is_cancelled e then format_events api es
      else bind_err (event_time_string (ev_start e)) (\<lambda>s.
           bind_err (event_time_string (ev_end e)) (\<lambda>f.
           case parse_datetime api s of
             None \<Rightarrow> format_events api es
           | Some start_dt \<Rightarrow>
               (case parse_datetime api f of
                  None \<Rightarrow> format_events api es
                | Some end_dt \<Rightarrow>
                    bind_err (format_events api es) (\<lambda>rest.
                    Inr (\<lparr> ue_id = ev_id e,
                           ue_summary = get_or (ev_summary e) ''Untitled Meeting'',
                           ue_start = start_dt, ue_end = end_dt,
                           ue_duration = minutes_between start_dt end_dt,
                           ue_description = get_or (ev_description e) [],
                           ue_location = get_or (ev_location e) [],
                           ue_attendees = map (\<lambda>a. get_or a []) (ev_attendees e) \<rparr>
                         # rest))))))"

definition get_upcoming_events_body ::
  "google_api \<Rightarrow> service_state \<Rightarrow> datetime \<Rightarrow> nat \<Rightarrow> int
   \<Rightarrow> (error + upcoming_event list) \<times> service_state" where
  \<comment> \<open>\<open>utc_now\<close> is \<open>datetime.now(pytz.UTC)\<close>\<close>
  "get_upcoming_events_body api st utc_now limit days_ahead =
     (case bind_err (timedelta_days days_ahead) (dt_add utc_now) of
        Inl e \<Rightarrow> (Inl e, st)
      | Inr future_time \<Rightarrow>
          (case upcoming_cache st (limit, utc_now, future_time) of
             Some cached \<Rightarrow> (Inr cached, st)
           | None \<Rightarrow>
               (case bind_err (events_list api utc_now future_time (Some limit))
                              (format_events api) of
                  Inl e \<Rightarrow> (Inl e, st)
                | Inr formatted_events \<Rightarrow>
                    (Inr formatted_events,
                     st\<lparr> upcoming_cache :=
                           (upcoming_cache st)
                             ((limit, utc_now, future_time) \<mapsto> formatted_events) \<rparr>))))"

definition get_upcoming_events ::
  "google_api \<Rightarrow> service_state \<Rightarrow> datetime \<Rightarrow> nat \<Rightarrow> int
   \<Rightarrow> upcoming_event list \<times> service_state" where
  "get_upcoming_events api st utc_now limit days_ahead =
     (case get_upcoming_events_body api st utc_now limit days_ahead of
        (Inl e, st1) \<Rightarrow> ([], st1)
      | (Inr events, st1) \<Rightarrow> (events, st1))"

definition two_digits :: "nat \<Rightarrow> string" where
  "two_digits n = [''0123456789'' ! (n div 10 mod 10), ''0123456789'' ! (n mod 10)]"

definition clock_12h :: "datetime \<Rightarrow> string" where
  \<comment> \<open>\<open>strftime('%I:%M %p').lower()\<close>\<close>
  "clock_12h dt =
     (let t = time_of dt; h = hour t mod 12
      in two_digits (if h = 0 then 12 else h) @ '':'' @ two_digits (minute t) @ '' ''
         @ (if hour t < 12 then ''am'' else ''pm''))"

fun first_matching :: "string \<Rightarrow> upcoming_event list \<Rightarrow> string option" where
  \<comment> \<open>the loop of \<open>_find_event_by_reference\<close>\<close>
  "first_matching reference_text [] = None"
| "first_matching reference_text (e # es) =
     (if sub_in reference_text (lower (ue_summary e)) then ue_id e
      else if sub_in reference_text (clock_12h (ue_start e)) then ue_id e
      else first_matching reference_text es)"

definition find_event_by_reference ::
  "google_api \<Rightarrow> service_state \<Rightarrow> datetime \<Rightarrow> meeting_reference
   \<Rightarrow> string option \<times> service_state" where
  "find_event_by_reference api st utc_now ref =
     (case get_upcoming_events api st utc_now 50 7 of
        (recent_events, st1) \<Rightarrow> (first_matching (lower (reference ref)) recent_events, st1))"

definition clear_all_caches :: "service_state \<Rightarrow> service_state" where
  "clear_all_caches st = st\<lparr> availability_cache := (\<lambda>k. None), upcoming_cache := (\<lambda>k. None) \<rparr>"

definition cancel_event ::
  "google_api \<Rightarrow> service_state \<Rightarrow> datetime \<Rightarrow> meeting_reference \<Rightarrow> bool \<times> service_state" where
  \<comment> \<open>\<open>not event_id\<close> holds for \<open>None\<close> and for the empty string; what \<open>delete\<close> raises is
      caught and answered with \<open>False\<close>\<close>
  "cancel_event api st utc_now ref =
     (case find_event_by_reference api st utc_now ref of
        (found, st1) \<Rightarrow>
          if get_or found [] = [] then (False, st1)
          else (case events_delete api (get_or found []) of
                  Inl e \<Rightarrow> (False, st1)
                | Inr done \<Rightarrow> (True, clear_all_caches st1)))"

definition reschedule_body ::
  "google_api \<Rightarrow> string \<Rightarrow> datetime \<Rightarrow> int option \<Rightarrow> error + api_event" where
  \<comment> \<open>the \<open>try\<close> block of \<open>reschedule_event\<close> once the event is found; the difference of
      two parsed times raises \<open>TypeError\<close> when one of them is \<open>None\<close>\<close>
  "reschedule_body api event_id new_start new_duration =
     bind_err (events_get api event_id) (\<lambda>existing_event.
     bind_err
       (if get_or new_duration 0 \<noteq> 0
        then bind_err (timedelta_minutes (get_or new_duration 0)) (dt_add new_start)
        else bind_err (event_time_string (ev_start existing_event)) (\<lambda>s.
             bind_err (event_time_string (ev_end existing_event)) (\<lambda>f.
             case parse_datetime api s of
               None \<Rightarrow> Inl TypeError
             | Some original_start \<Rightarrow>
                 (case parse_datetime api f of
                    None \<Rightarrow> Inl TypeError
                  | Some original_end \<Rightarrow>
                      bind_err (timedelta_us (micros original_end - micros original_start))
                               (dt_add new_start))))) (\<lambda>new_end.
     events_update api event_id
       (existing_event
          \<lparr> ev_start := Some \<lparr> date_time = Some (to_iso api new_start), date_only = None \<rparr>,
            ev_end := Some \<lparr> date_time = Some (to_iso api new_end), date_only = None \<rparr>,
            ev_description :=
              Some (get_or (ev_description existing_event) [] @ ''--- Rescheduled ---'') \<rparr>)))"

definition reschedule_event ::
  "google_api \<Rightarrow> service_state \<Rightarrow> datetime \<Rightarrow> meeting_reference \<Rightarrow> datetime \<Rightarrow> int option
   \<Rightarrow> bool \<times> service_state" where
  "reschedule_event api st utc_now ref new_start new_duration =
     (case find_event_by_reference api st utc_now ref of
        (found, st1) \<Rightarrow>
          if get_or found [] = [] then (False, st1)
          else (case reschedule_body api (get_or found []) new_start new_duration of
                  Inl e \<Rightarrow> (False, st1)
                | Inr updated_event \<Rightarrow> (True, clear_all_caches st1)))"

fun busy_intervals :: "google_api \<Rightarrow> api_event list \<Rightarrow> error + (datetime \<times> datetime) list" where
  \<comment> \<open>the loop of \<open>get_busy_times\<close>\<close>
  "busy_intervals api [] = Inr []"
| "busy_intervals api (e # es) =
     (if is_cancelled e then busy_intervals api es
      else bind_err (event_time_string (ev_start e)) (\<lambda>s.
           bind_err (event_time_string (ev_end e)) (\<lambda>f.
           case parse_datetime api s of
             None \<Rightarrow> busy_intervals api es
           | Some event_start \<Rightarrow>
               (case parse_datetime api f of
                  None \<Rightarrow> busy_intervals api es
                | Some event_end \<Rightarrow>
                    bind_err (busy_intervals api es) (\<lambda>rest.
                    Inr ((event_start, event_end) # rest))))))"

definition get_busy_times ::
  "google_api \<Rightarrow> datetime \<Rightarrow> datetime \<Rightarrow> (datetime \<times> datetime) list" where
  "get_busy_times api start finish =
     (case bind_err (events_list api start finish None) (busy_intervals api) of
        Inl e \<Rightarrow> []
      | Inr busy_times \<Rightarrow> busy_times)"

text \<open>
  The value an operation hands back, as Python sees it, and the two values the
  fail-soft contract names for a failure.
\<close>

datatype returned =
    RBool bool
  | RText string
  | REvents "upcoming_event list"
  | RIntervals "(datetime \<times> datetime) list"

definition false_or_empty :: "returned \<Rightarrow> bool" where
  "false_or_empty v = (v = RBool False \<or> v = REvents [] \<or> v = RIntervals [])"

definition failing_api :: google_api where
  \<comment> \<open>a calendar API whose every request is refused\<close>
  "failing_api =
     \<lparr> events_list = (\<lambda>a b n. Inl (HttpError (Some ''Forbidden''))),
       events_insert = (\<lambda>body notify. Inl (HttpError (Some ''Forbidden''))),
       events_delete = (\<lambda>i. Inl (HttpError (Some ''Forbidden''))),
       events_get = (\<lambda>i. Inl (HttpError (Some ''Forbidden''))),
       events_update = (\<lambda>i e. Inl (HttpError (Some ''Forbidden''))),
       from_iso = (\<lambda>s. None),
       to_iso = (\<lambda>d. []) \<rparr>"

definition empty_caches :: service_state where
  "empty_caches = \<lparr> availability_cache = (\<lambda>k. None), upcoming_cache = (\<lambda>k. None) \<rparr>"

section \<open>Concrete inputs\<close>

definition wednesday_morning :: datetime where
  \<comment> \<open>Wednesday 2025-01-08 (ordinal 739259), 10:15:42.123456\<close>
  "wednesday_morning = mk_datetime 739259 10 15 42 123456"

definition always_free :: calendar where
  "always_free t d = True"

definition never_free :: calendar where
  "never_free t d = False"

definition is_create :: "cal_call \<Rightarrow> bool" where
  \<comment> \<open>the call is a \<open>create_event\<close>\<close>
  "is_create c = (case c of CallCreateEvent title st dur descr \<Rightarrow> True | _ \<Rightarrow> False)"

definition long_request :: parsed_booking_request where
  \<comment> \<open>a ten-hour meeting on Monday 2025-01-13 at 09:00: no slot of the business day holds it\<close>
  "long_request =
     \<lparr> intent = BookMeeting, summary = Some ''Workshop'',
       start_time = Some (mk_datetime 739264 9 0 0 0), end_time = None,
       duration = 600, attendees = [], description = None,
       meeting_type = ''meeting'', urgency = ''normal'', flexibility = ''rigid'' \<rparr>"

definition entry_key :: "history_entry \<Rightarrow> string \<times> string" where
  \<comment> \<open>what identifies a history entry: the user's text and the time stamp\<close>
  "entry_key e = (user e, timestamp e)"

definition turn_key :: "turn \<Rightarrow> string \<times> string" where
  "turn_key t = (user_text t, stamp t)"

definition hello_turn :: "string \<Rightarrow> turn" where
  "hello_turn s =
     \<lparr> user_text = s, clock = wednesday_morning, stamp = ''2025-01-08T10:15:42'',
       recognized = Greeting, extracted = None, cal = always_free, rescheduled = False,
       plain_reply = GreetingReply \<rparr>"

definition twelve_turns :: "turn list" where
  "twelve_turns =
     map hello_turn [''one'', ''two'', ''three'', ''four'', ''five'', ''six'', ''seven'', ''eight'', ''nine'',
                    ''ten'', ''eleven'', ''twelve'']"

definition busy_until_four :: calendar where
  \<comment> \<open>a calendar that is busy before Wednesday 2025-01-08 16:00 and free from then on\<close>
  "busy_until_four t d = dt_le (mk_datetime 739259 16 0 0 0) t"

definition monday_request :: parsed_booking_request where
  \<comment> \<open>what the fallback extractor makes of "schedule something flexible around next Monday"
      on \<open>wednesday_morning\<close>: the start is Monday 2025-01-13 (ordinal 739264), 09:00\<close>
  "monday_request =
     \<lparr> intent = BookMeeting, summary = Some ''Meeting'',
       start_time = Some (mk_datetime 739264 9 0 0 0), end_time = None,
       duration = 60, attendees = [], description = None,
       meeting_type = ''meeting'', urgency = ''normal'', flexibility = ''flexible'' \<rparr>"

definition is_clarification :: "response \<Rightarrow> bool" where
  \<comment> \<open>the reply that asks the user when the meeting should be\<close>
  "is_clarification r = (case r of UnclearTime title \<Rightarrow> True | _ \<Rightarrow> False)"

section \<open>Facts about datetimes\<close>

lemma div_mod_unique:
  fixes q r b :: int
  assumes "0 \<le> r" "r < b"
  shows "(q * b + r) div b = q" and "(q * b + r) mod b = r"
  using assms by (simp_all add: div_pos_pos_trivial)

lemma ordinal_mk_datetime:
  assumes "h < 24" "m < 60" "s < 60" "u < 1000000"
  shows "ordinal (mk_datetime d h m s u) = d"
proof -
  have "micros (mk_datetime d h m s u)
        = d * us_per_day
          + (int h * us_per_hour + int m * us_per_minute + int s * us_per_second + int u)"
    by (simp add: mk_datetime_def)
  moreover have "0 \<le> int h * us_per_hour + int m * us_per_minute + int s * us_per_second + int u"
    by simp
  moreover have
    "int h * us_per_hour + int m * us_per_minute + int s * us_per_second + int u < us_per_day"
    using assms by simp
  ultimately show ?thesis
    unfolding ordinal_def by (simp only: div_mod_unique)
qed

lemma time_of_mk_datetime:
  assumes "h < 24" "m < 60" "s < 60" "u < 1000000"
  shows "time_of (mk_datetime d h m s u)
         = \<lparr> hour = h, minute = m, second = s, microsecond = u \<rparr>"
proof -
  define x where "x = micros (mk_datetime d h m s u)"
  have u: "x = (d * 86400 + int h * 3600 + int m * 60 + int s) * us_per_second + int u"
    by (simp add: x_def mk_datetime_def)
  have mi: "x = (d * 1440 + int h * 60 + int m) * us_per_minute
                + (int s * us_per_second + int u)"
    by (simp add: x_def mk_datetime_def)
  have ho: "x = (d * 24 + int h) * us_per_hour
                + (int m * us_per_minute + (int s * us_per_second + int u))"
    by (simp add: x_def mk_datetime_def)
  have da: "x = d * us_per_day
                + (int h * us_per_hour
                   + (int m * us_per_minute + (int s * us_per_second + int u)))"
    by (simp add: x_def mk_datetime_def)
  have b1: "0 \<le> int u" "int u < us_per_second"
    using assms by simp_all
  have b2: "0 \<le> int s * us_per_second + int u" "int s * us_per_second + int u < us_per_minute"
    using assms by simp_all
  have b3: "0 \<le> int m * us_per_minute + (int s * us_per_second + int u)"
    "int m * us_per_minute + (int s * us_per_second + int u) < us_per_hour"
    using assms by simp_all
  have b4: "0 \<le> int h * us_per_hour + (int m * us_per_minute + (int s * us_per_second + int u))"
    "int h * us_per_hour + (int m * us_per_minute + (int s * us_per_second + int u))
     < us_per_day"
    using assms by simp_all
  have m1: "x mod us_per_second = int u"
    by (subst u) (rule div_mod_unique(2)[OF b1])
  have m2: "x mod us_per_minute = int s * us_per_second + int u"
    by (subst mi) (rule div_mod_unique(2)[OF b2])
  have m3: "x mod us_per_hour = int m * us_per_minute + (int s * us_per_second + int u)"
    by (subst ho) (rule div_mod_unique(2)[OF b3])
  have m4: "x mod us_per_day
            = int h * us_per_hour + (int m * us_per_minute + (int s * us_per_second + int u))"
    by (subst da) (rule div_mod_unique(2)[OF b4])
  have d2: "x mod us_per_minute div us_per_second = int s"
    unfolding m2 by (rule div_mod_unique(1)[OF b1])
  have d3: "x mod us_per_hour div us_per_minute = int m"
    unfolding m3 by (rule div_mod_unique(1)[OF b2])
  have d4: "x mod us_per_day div us_per_hour = int h"
    unfolding m4 by (rule div_mod_unique(1)[OF b3])
  show ?thesis
    unfolding time_of_def x_def[symmetric] m1 d2 d3 d4 by simp
qed

lemma ordinal_add_days: "ordinal (Datetime (micros dt + k * us_per_day)) = ordinal dt + k"
  by (simp add: ordinal_def)

lemma weekday_add_days: "weekday (Datetime (micros dt + k * us_per_day)) = (weekday dt + k) mod 7"
  by (simp add: weekday_def ordinal_add_days mod_simps add.assoc add.commute)

lemma weekday_bounds: "0 \<le> weekday dt" "weekday dt < 7"
  by (simp_all add: weekday_def)

lemma dt_add_days:
  assumes "in_range (micros now)" "in_range (micros now + k * us_per_day)"
  shows "bind_err (timedelta_days k) (dt_add now) = Inr (Datetime (micros now + k * us_per_day))"
proof -
  have "- 999999999 \<le> k \<and> k \<le> 999999999"
    using assms by (simp add: in_range_def max_ordinal_def)
  then show ?thesis
    using assms(2) by (simp add: bind_err_def timedelta_days_def timedelta_us_def dt_add_def)
qed

lemma in_range_between:
  assumes "in_range (micros now)" "in_range (micros now + 7 * us_per_day)" "0 \<le> k" "k \<le> 7"
  shows "in_range (micros now + k * us_per_day)"
  using assms by (simp add: in_range_def)

lemma replace_hm00_mk:
  "h < 24 \<Longrightarrow> m < 60 \<Longrightarrow> replace_hm00 dt h m = Inr (mk_datetime (ordinal dt) h m 0 0)"
  by (simp add: replace_hm00_def mk_datetime_def)

lemma bind_err_simps:
  "bind_err (Inl e) f = Inl e" "bind_err (Inr v) f = f v"
  by (simp_all add: bind_err_def)

lemma bind_bind_days:
  assumes "in_range (micros now)" "in_range (micros now + k * us_per_day)"
  shows "bind_err (timedelta_days k) (\<lambda>td. bind_err (dt_add now td) f)
         = f (Datetime (micros now + k * us_per_day))"
proof -
  have "bind_err (timedelta_days k) (\<lambda>td. bind_err (dt_add now td) f)
        = bind_err (bind_err (timedelta_days k) (dt_add now)) f"
    by (simp add: bind_err_def split: sum.splits)
  then show ?thesis
    by (simp add: dt_add_days[OF assms] bind_err_simps)
qed

section \<open>The parser on the spec's example phrases\<close>

lemma lower_next_week_same_time: "lower ''next week same time'' = ''next week same time''"
  by code_simp

lemma lower_week: "lower ''week'' = ''week''"
  by code_simp

lemma week_is_no_weekday: "weekdays ''week'' = None"
  by code_simp

lemma weekdays_range: "weekdays w = Some t \<Longrightarrow> 0 \<le> t \<and> t \<le> 6"
  by (auto simp: weekdays_def weekday_table_def split: if_splits)

lemma nwst_in_hours: "re_search pat_in_hours ''next week same time'' = None"
  by code_simp

lemma nwst_in_minutes: "re_search pat_in_minutes ''next week same time'' = None"
  by code_simp

lemma nwst_tomorrow_at: "re_search pat_tomorrow_at ''next week same time'' = None"
  by code_simp

lemma nwst_next_word:
  "re_search pat_next_word ''next week same time'' = Some [Some ''next week'', Some ''week'']"
  by code_simp

lemma next_week_resolves_to_None:
  "parse_next_weekday ctx now [Some ''next week'', Some ''week''] = Inr None"
  by (simp add: parse_next_weekday_def group_lower_def group_def bind_err_def lower_week
        week_is_no_weekday)

text \<open>
  C1 (the code departs from the claim).  The claim: every input that contains
  "next week same time" resolves to now + 7 days.  In the code the fourth pattern,
  \<open>next (\w+)\<close>, matches the words "next week" of that phrase; its resolver
  \<open>_parse_next_weekday\<close> finds that "week" is no weekday name and returns \<open>None\<close>
  instead of raising, so the loop returns \<open>None\<close> and never reaches the tenth pattern.
  For every context and every clock reading the phrase itself parses to \<open>None\<close>.
\<close>

theorem next_week_same_time_unresolved:
  "parse_time_advanced ctx now ''next week same time'' = None"
  by (simp add: parse_time_advanced_def relative_patterns_def lower_next_week_same_time
        nwst_in_hours nwst_in_minutes nwst_tomorrow_at nwst_next_word
        next_week_resolves_to_None)


subsection \<open>"book a call for 45 min tomorrow at 2pm"\<close>

lemma call_lower:
  "lower ''book a call for 45 min tomorrow at 2pm'' = ''book a call for 45 min tomorrow at 2pm''"
  by code_simp

lemma call_summary: "fallback_summary ''book a call for 45 min tomorrow at 2pm'' = ''Call''"
  by code_simp

lemma call_flexibility:
  "fallback_flexibility ''book a call for 45 min tomorrow at 2pm'' = ''rigid''"
  by code_simp

lemma call_dur_hours:
  "re_search pat_dur_hours ''book a call for 45 min tomorrow at 2pm'' = None"
  by code_simp

lemma call_dur_minutes:
  "re_search pat_dur_minutes ''book a call for 45 min tomorrow at 2pm''
   = Some [Some ''45 min'', Some ''45'']"
  by code_simp

lemma py_int_45: "py_int (Some ''45'') = Inr 45"
  by code_simp

lemma call_duration:
  "parse_duration duration_patterns ''book a call for 45 min tomorrow at 2pm'' dflt = Inr 45"
  by (simp add: duration_patterns_def call_dur_hours call_dur_minutes group_def py_int_45
        bind_err_simps)

lemma call_in_hours: "re_search pat_in_hours ''book a call for 45 min tomorrow at 2pm'' = None"
  by code_simp

lemma call_in_minutes:
  "re_search pat_in_minutes ''book a call for 45 min tomorrow at 2pm'' = None"
  by code_simp

lemma call_tomorrow_at:
  "re_search pat_tomorrow_at ''book a call for 45 min tomorrow at 2pm''
   = Some [Some ''tomorrow at 2pm'', Some ''2'', None, Some ''pm'']"
  by code_simp

lemma two_pm:
  "py_int (Some ''2'') = Inr 2" "opt_int None = Inr 0" "adjust_ampm 2 (Some ''pm'') = 14"
  by code_simp+

lemma tomorrow_2pm:
  assumes "in_range (micros now)" "in_range (micros now + us_per_day)"
  shows "parse_tomorrow_time now [Some ''tomorrow at 2pm'', Some ''2'', None, Some ''pm'']
         = Inr (Some (mk_datetime (ordinal now + 1) 14 0 0 0))"
proof -
  have r: "in_range (micros now + 1 * us_per_day)"
    using assms(2) by simp
  show ?thesis
    unfolding parse_tomorrow_time_def
    by (simp add: group_def bind_err_simps two_pm bind_bind_days[OF assms(1) r]
          replace_hm00_mk ordinal_add_days[of now 1, simplified])
qed

lemma wednesday_morning_facts:
  "in_range (micros wednesday_morning)"
  "in_range (micros wednesday_morning + us_per_day)"
  "in_range (micros wednesday_morning + 7 * us_per_day)"
  "ordinal wednesday_morning = 739259"
  "weekday wednesday_morning = 2"
  by (simp_all add: wednesday_morning_def mk_datetime_def in_range_def max_ordinal_def
        ordinal_def weekday_def)

text \<open>
  C5.  On "book a call for 45 min tomorrow at 2pm" the fallback extractor returns the
  summary "Call", 45 minutes, the day after \<open>now\<close> at 14:00:00 and the flexibility
  "rigid", for every context and every clock reading that has a next day (Python's
  datetimes end with the year 9999).
\<close>

theorem fallback_call_tomorrow_2pm:
  assumes "in_range (micros now)" "in_range (micros now + us_per_day)"
  shows "fallback_parsing ctx now ''book a call for 45 min tomorrow at 2pm''
         = Inr \<lparr> intent = BookMeeting, summary = Some ''Call'',
                 start_time = Some (mk_datetime (ordinal now + 1) 14 0 0 0), end_time = None,
                 duration = 45, attendees = [], description = None,
                 meeting_type = ''meeting'', urgency = ''normal'', flexibility = ''rigid'' \<rparr>"
proof -
  have "parse_time_advanced ctx now ''book a call for 45 min tomorrow at 2pm''
        = Some (mk_datetime (ordinal now + 1) 14 0 0 0)"
    by (simp add: parse_time_advanced_def relative_patterns_def call_lower call_in_hours
          call_in_minutes call_tomorrow_at tomorrow_2pm[OF assms])
  then show ?thesis
    by (simp add: fallback_parsing_def call_lower call_duration call_summary call_flexibility
          bind_err_simps)
qed

theorem fallback_call_tomorrow_2pm_witness:
  "in_range (micros wednesday_morning) \<and> in_range (micros wednesday_morning + us_per_day) \<and>
   fallback_parsing default_context wednesday_morning ''book a call for 45 min tomorrow at 2pm''
   = Inr \<lparr> intent = BookMeeting, summary = Some ''Call'',
           start_time = Some (mk_datetime 739260 14 0 0 0), end_time = None,
           duration = 45, attendees = [], description = None,
           meeting_type = ''meeting'', urgency = ''normal'', flexibility = ''rigid'' \<rparr>"
  using fallback_call_tomorrow_2pm[OF wednesday_morning_facts(1,2), of default_context]
  by (simp add: wednesday_morning_facts)

subsection \<open>The weekday phrases\<close>

lemma days_ahead_bounds:
  assumes "0 \<le> (t::int)" "t \<le> 6" "0 \<le> wd" "wd < 7"
  shows "1 \<le> (if t - wd \<le> 0 then t - wd + 7 else t - wd)"
    and "(if t - wd \<le> 0 then t - wd + 7 else t - wd) \<le> 7"
    and "(wd + (if t - wd \<le> 0 then t - wd + 7 else t - wd)) mod 7 = t"
    and "wd = t \<Longrightarrow> (if t - wd \<le> 0 then t - wd + 7 else t - wd) = 7"
  using assms by auto

lemma parse_next_weekday_value:
  assumes wd: "weekdays (lower w) = Some target"
    and bs: "hour (business_hours_start ctx) < 24" "minute (business_hours_start ctx) < 60"
    and rng: "in_range (micros now)" "in_range (micros now + 7 * us_per_day)"
  shows "parse_next_weekday ctx now [g0, Some w]
         = Inr (Some (mk_datetime
                  (ordinal now + (if target - weekday now \<le> 0 then target - weekday now + 7
                                  else target - weekday now))
                  (hour (business_hours_start ctx)) (minute (business_hours_start ctx)) 0 0))"
proof -
  define k where "k = (if target - weekday now \<le> 0 then target - weekday now + 7
                       else target - weekday now)"
  have t: "0 \<le> target" "target \<le> 6"
    using weekdays_range[OF wd] by simp_all
  have k: "1 \<le> k" "k \<le> 7"
    unfolding k_def using days_ahead_bounds(1,2)[OF t weekday_bounds[of now]] by simp_all
  have r: "in_range (micros now + k * us_per_day)"
    using in_range_between[OF rng] k by simp
  have g: "group_lower [g0, Some w] 1 = Inr (lower w)"
    by (simp add: group_lower_def group_def bind_err_simps)
  show ?thesis
    unfolding parse_next_weekday_def g bind_err_simps wd option.case Let_def k_def[symmetric]
    by (simp add: bind_bind_days[OF rng(1) r] replace_hm00_mk[OF bs] ordinal_add_days
          bind_err_simps)
qed

lemma parse_weekday_time_today:
  assumes wd: "weekdays (lower w) = Some (weekday now)"
    and clock: "py_int (Some hs) = Inr h0" "opt_int mm = Inr mi"
    and valid: "adjust_ampm h0 ap < 24" "mi < 60"
    and rng: "in_range (micros now)" "in_range (micros now + 7 * us_per_day)"
  shows "parse_weekday_time now [g0, Some w, Some hs, mm, ap]
         = Inr (Some (if dt_lt now (mk_datetime (ordinal now) (adjust_ampm h0 ap) mi 0 0)
                      then mk_datetime (ordinal now) (adjust_ampm h0 ap) mi 0 0
                      else mk_datetime (ordinal now + 7) (adjust_ampm h0 ap) mi 0 0))"
proof -
  have g: "group_lower [g0, Some w, Some hs, mm, ap] 1 = Inr (lower w)"
    "group [g0, Some w, Some hs, mm, ap] 2 = Inr (Some hs)"
    "group [g0, Some w, Some hs, mm, ap] 3 = Inr mm"
    "group [g0, Some w, Some hs, mm, ap] 4 = Inr ap"
    by (simp_all add: group_lower_def group_def bind_err_simps)
  have r0: "in_range (micros now + 0 * us_per_day)"
    using rng(1) by simp
  have r7: "in_range (micros now + 7 * us_per_day)"
    using rng(2) by simp
  show ?thesis
    unfolding parse_weekday_time_def g bind_err_simps clock wd option.case Let_def
    by (simp add: replace_hm00_mk[OF valid] bind_err_simps bind_bind_days[OF rng(1) r0]
          bind_bind_days[OF rng(1) r7] ordinal_add_days dt_le_def dt_lt_def not_less
          ordinal_add_days[of now 0, simplified] ordinal_add_days[of now 7, simplified])
qed

lemma next_phrase_patterns:
  "list_all (\<lambda>w. lower (''next '' @ w) = ''next '' @ w \<and> lower w = w
               \<and> re_search pat_in_hours (''next '' @ w) = None
               \<and> re_search pat_in_minutes (''next '' @ w) = None
               \<and> re_search pat_tomorrow_at (''next '' @ w) = None
               \<and> re_search pat_next_word (''next '' @ w) = Some [Some (''next '' @ w), Some w])
            (map fst weekday_table)"
  by code_simp


lemma lower_weekday_name: "weekdays w = Some target \<Longrightarrow> lower w = w"
proof -
  assume "weekdays w = Some target"
  then have "w \<in> set (map fst weekday_table)"
    unfolding weekdays_def by (force dest: map_of_SomeD)
  then show ?thesis
    using next_phrase_patterns unfolding list_all_iff by blast
qed

lemma weekday_mk_datetime:
  assumes "h < 24" "m < 60" "s < 60" "u < 1000000"
  shows "weekday (mk_datetime d h m s u) = (d + 6) mod 7"
  by (simp add: weekday_def ordinal_mk_datetime[OF assms])



lemma wed_11: "weekdays ''wednesday'' = Some 2" "py_int (Some ''11'') = Inr 11" "opt_int None = Inr 0"
  "adjust_ampm 11 None = 11"
  by code_simp+



text \<open>The same phrase through the whole parser: on that Wednesday at 10:15, "wednesday at 11" is today at 11:00.\<close>

lemma wednesday_at_11_patterns:
  "lower ''wednesday at 11'' = ''wednesday at 11''"
  "re_search pat_in_hours ''wednesday at 11'' = None"
  "re_search pat_in_minutes ''wednesday at 11'' = None"
  "re_search pat_tomorrow_at ''wednesday at 11'' = None"
  "re_search pat_next_word ''wednesday at 11'' = None"
  "re_search pat_word_at ''wednesday at 11''
   = Some [Some ''wednesday at 11'', Some ''wednesday'', Some ''11'', None, None]"
  by code_simp+

lemma wednesday_at_11_through_parser:
  "parse_time_advanced default_context wednesday_morning ''wednesday at 11''
   = Some (mk_datetime 739259 11 0 0 0)"
proof -
  have w: "weekdays (lower ''wednesday'') = Some (weekday wednesday_morning)"
    by (simp add: wednesday_morning_facts(5) lower_weekday_name[OF wed_11(1)] wed_11(1))
  have c: "adjust_ampm 11 None < 24" "(0::nat) < 60"
    by (simp_all add: wed_11(4))
  have lt: "dt_lt wednesday_morning (mk_datetime 739259 11 0 0 0)"
    by (simp add: dt_lt_def wednesday_morning_def mk_datetime_def)
  have "parse_weekday_time wednesday_morning
          [Some ''wednesday at 11'', Some ''wednesday'', Some ''11'', None, None]
        = Inr (Some (mk_datetime 739259 11 0 0 0))"
    using parse_weekday_time_today[OF w wed_11(2,3) c wednesday_morning_facts(1,3)]
    by (simp add: wednesday_morning_facts(4) wed_11(4) lt)
  then show ?thesis
    by (simp add: parse_time_advanced_def relative_patterns_def wednesday_at_11_patterns)
qed


subsection \<open>"schedule something flexible around next Monday"\<close>

lemma monday_lower:
  "lower ''schedule something flexible around next Monday''
   = ''schedule something flexible around next monday''"
  by code_simp

lemma monday_lower_again:
  "lower ''schedule something flexible around next monday''
   = ''schedule something flexible around next monday''"
  by code_simp

lemma monday_summary:
  "fallback_summary ''schedule something flexible around next monday'' = ''Meeting''"
  by code_simp

lemma monday_flexibility:
  "fallback_flexibility ''schedule something flexible around next monday'' = ''flexible''"
  by code_simp

lemma monday_no_duration:
  "re_search pat_dur_hours ''schedule something flexible around next monday'' = None"
  "re_search pat_dur_minutes ''schedule something flexible around next monday'' = None"
  "re_search pat_dur_h_m ''schedule something flexible around next monday'' = None"
  by code_simp+

lemma monday_duration:
  "parse_duration duration_patterns ''schedule something flexible around next monday'' dflt
   = Inr dflt"
  by (simp add: duration_patterns_def monday_no_duration)

lemma monday_patterns:
  "re_search pat_in_hours ''schedule something flexible around next monday'' = None"
  "re_search pat_in_minutes ''schedule something flexible around next monday'' = None"
  "re_search pat_tomorrow_at ''schedule something flexible around next monday'' = None"
  "re_search pat_next_word ''schedule something flexible around next monday''
   = Some [Some ''next monday'', Some ''monday'']"
  by code_simp+

lemma monday_is_0: "weekdays (lower ''monday'') = Some 0"
  by code_simp

lemma handler_not_clarification:
  "start_time r = Some st \<Longrightarrow> \<not> is_clarification (fst (handle_booking_request avail ctx r))"
  by (simp add: handle_booking_request_def is_clarification_def Let_def
        split: option.splits prod.splits sum.splits)

lemma handler_outside_hours:
  "start_time r = Some st \<Longrightarrow> \<not> check_business_hours ctx st \<Longrightarrow>
   handle_booking_request avail ctx r = (OutsideBusinessHours st, ctx, [])"
  by (simp add: handle_booking_request_def)

lemma handler_first_call:
  "start_time r = Some st \<Longrightarrow> check_business_hours ctx st \<Longrightarrow>
   take 1 (snd (snd (handle_booking_request avail ctx r))) = [CallCheckAvailability st (duration r)]"
  by (simp add: handle_booking_request_def Let_def
        split: option.splits prod.splits sum.splits)

lemma fallback_next_monday_value:
  assumes bs: "hour (business_hours_start ctx) < 24" "minute (business_hours_start ctx) < 60"
    and rng: "in_range (micros now)" "in_range (micros now + 7 * us_per_day)"
  shows "fallback_parsing ctx now ''schedule something flexible around next Monday''
         = Inr \<lparr> intent = BookMeeting, summary = Some ''Meeting'',
                 start_time = Some (mk_datetime (ordinal now + (7 - weekday now))
                                      (hour (business_hours_start ctx))
                                      (minute (business_hours_start ctx)) 0 0),
                 end_time = None,
                 duration = preferred_meeting_duration ctx, attendees = [], description = None,
                 meeting_type = ''meeting'', urgency = ''normal'', flexibility = ''flexible'' \<rparr>"
proof -
  define st where "st = mk_datetime (ordinal now + (7 - weekday now))
                          (hour (business_hours_start ctx))
                          (minute (business_hours_start ctx)) 0 0"
  have k: "(if 0 - weekday now \<le> 0 then 0 - weekday now + 7 else 0 - weekday now)
           = 7 - weekday now"
    using weekday_bounds[of now] by simp
  have v: "parse_next_weekday ctx now [Some ''next monday'', Some ''monday''] = Inr (Some st)"
    unfolding st_def k[symmetric] by (rule parse_next_weekday_value[OF monday_is_0 bs rng])
  have p: "parse_time_advanced ctx now ''schedule something flexible around next monday''
           = Some st"
    by (simp add: parse_time_advanced_def relative_patterns_def monday_lower_again
          monday_patterns v)
  show ?thesis
    unfolding fallback_parsing_def monday_lower Let_def monday_duration bind_err_simps p
      monday_summary monday_flexibility st_def ..
qed

text \<open>
  C2 (corrected).  The claim expects a null start time for "schedule something flexible
  around next Monday".  The text contains "next Monday", which the fourth pattern
  \<open>next (\w+)\<close> matches, so the fallback extractor resolves the start: the Monday
  strictly after today, at the hour and minute of the business-hours start.  The
  flexibility is "flexible", the summary "Meeting", the duration the context's default.
  Given this request the booking handler does not ask for the time: it reports a start
  outside the business hours, and otherwise its first action is the calendar's
  availability check.
\<close>

theorem flexible_next_monday:
  assumes bs: "hour (business_hours_start ctx) < 24" "minute (business_hours_start ctx) < 60"
    and rng: "in_range (micros now)" "in_range (micros now + 7 * us_per_day)"
  shows "\<exists>r st. fallback_parsing ctx now ''schedule something flexible around next Monday'' = Inr r
           \<and> start_time r = Some st
           \<and> ordinal now < ordinal st \<and> ordinal st \<le> ordinal now + 7 \<and> weekday st = 0
           \<and> time_of st = \<lparr> hour = hour (business_hours_start ctx),
                             minute = minute (business_hours_start ctx),
                             second = 0, microsecond = 0 \<rparr>
           \<and> flexibility r = ''flexible'' \<and> summary r = Some ''Meeting''
           \<and> duration r = preferred_meeting_duration ctx
           \<and> \<not> is_clarification (fst (handle_booking_request avail ctx r))
           \<and> (if check_business_hours ctx st
               then take 1 (snd (snd (handle_booking_request avail ctx r)))
                    = [CallCheckAvailability st (duration r)]
               else handle_booking_request avail ctx r = (OutsideBusinessHours st, ctx, []))"
proof -
  define st where "st = mk_datetime (ordinal now + (7 - weekday now))
                          (hour (business_hours_start ctx))
                          (minute (business_hours_start ctx)) 0 0"
  define r where "r = \<lparr> intent = BookMeeting, summary = Some ''Meeting'',
                 start_time = Some st, end_time = None,
                 duration = preferred_meeting_duration ctx, attendees = [], description = None,
                 meeting_type = ''meeting'', urgency = ''normal'', flexibility = ''flexible'' \<rparr>"
  have f: "fallback_parsing ctx now ''schedule something flexible around next Monday'' = Inr r"
    unfolding r_def st_def by (rule fallback_next_monday_value[OF bs rng])
  have s: "start_time r = Some st"
    by (simp add: r_def)
  have o: "ordinal st = ordinal now + (7 - weekday now)"
    unfolding st_def using bs by (simp add: ordinal_mk_datetime)
  have ob: "ordinal now < ordinal st" "ordinal st \<le> ordinal now + 7"
    using weekday_bounds[of now] by (simp_all add: o)
  have w: "weekday st = 0"
    unfolding weekday_def[of st] o unfolding weekday_def by presburger
  have t: "time_of st = \<lparr> hour = hour (business_hours_start ctx),
                             minute = minute (business_hours_start ctx),
                             second = 0, microsecond = 0 \<rparr>"
    unfolding st_def using bs by (simp add: time_of_mk_datetime)
  have h: "if check_business_hours ctx st
           then take 1 (snd (snd (handle_booking_request avail ctx r)))
                = [CallCheckAvailability st (duration r)]
           else handle_booking_request avail ctx r = (OutsideBusinessHours st, ctx, [])"
    using handler_first_call[OF s] handler_outside_hours[OF s] by simp
  show ?thesis
    using f s ob w t h handler_not_clarification[OF s, of avail ctx]
    by (intro exI[of _ r] exI[of _ st]) (simp add: r_def)
qed

lemma monday_request_start: "start_time monday_request = Some (mk_datetime 739264 9 0 0 0)"
  by (simp add: monday_request_def)

lemma monday_request_handled:
  "handle_booking_request always_free default_context monday_request
   = (BookingSuccessful ''meeting'' (mk_datetime 739264 9 0 0 0) 60,
      default_context\<lparr> last_intent := Some BookMeeting, pending_booking := None \<rparr>,
      [CallCheckAvailability (mk_datetime 739264 9 0 0 0) 60,
       CallCreateEvent (Some ''Meeting'') (mk_datetime 739264 9 0 0 0) 60 None])"
proof -
  have t: "time_of (mk_datetime 739264 9 0 0 0)
           = \<lparr> hour = 9, minute = 0, second = 0, microsecond = 0 \<rparr>"
    by (simp add: time_of_mk_datetime)
  have c: "check_business_hours default_context (mk_datetime 739264 9 0 0 0)"
    by (simp add: check_business_hours_def t time_le_def default_context_def)
  have l: "lower ''Meeting'' = ''meeting''"
    by code_simp
  show ?thesis
    by (simp add: handle_booking_request_def monday_request_def c always_free_def Let_def l)
qed

theorem flexible_next_monday_counterexample:
  "fallback_parsing default_context wednesday_morning
     ''schedule something flexible around next Monday'' = Inr monday_request
   \<and> start_time monday_request \<noteq> None
   \<and> \<not> is_clarification (fst (handle_booking_request always_free default_context monday_request))
   \<and> snd (snd (handle_booking_request always_free default_context monday_request))
     = [CallCheckAvailability (mk_datetime 739264 9 0 0 0) 60,
        CallCreateEvent (Some ''Meeting'') (mk_datetime 739264 9 0 0 0) 60 None]"
proof -
  have b: "hour (business_hours_start default_context) < 24"
    "minute (business_hours_start default_context) < 60"
    by (simp_all add: default_context_def)
  have a: "fallback_parsing default_context wednesday_morning
     ''schedule something flexible around next Monday'' = Inr monday_request"
    using fallback_next_monday_value[OF b wednesday_morning_facts(1,3)]
    by (simp add: wednesday_morning_facts(4,5) monday_request_def default_context_def)
  show ?thesis
    using a by (simp add: monday_request_start monday_request_handled is_clarification_def)
qed

theorem flexible_next_monday_witness:
  "hour (business_hours_start default_context) < 24
   \<and> minute (business_hours_start default_context) < 60
   \<and> in_range (micros wednesday_morning)
   \<and> in_range (micros wednesday_morning + 7 * us_per_day)
   \<and> (\<exists>r st. fallback_parsing default_context wednesday_morning
                 ''schedule something flexible around next Monday'' = Inr r
           \<and> start_time r = Some st
           \<and> ordinal st = 739264 \<and> weekday st = 0
           \<and> time_of st = \<lparr> hour = 9, minute = 0, second = 0, microsecond = 0 \<rparr>
           \<and> flexibility r = ''flexible''
           \<and> \<not> is_clarification (fst (handle_booking_request always_free default_context r))
           \<and> take 1 (snd (snd (handle_booking_request always_free default_context r)))
             = [CallCheckAvailability st 60])"
proof -
  have b: "hour (business_hours_start default_context) < 24"
    "minute (business_hours_start default_context) < 60"
    by (simp_all add: default_context_def)
  have r7: "in_range (micros wednesday_morning + 7 * us_per_day)"
    by (rule wednesday_morning_facts(3))
  obtain r st where f: "fallback_parsing default_context wednesday_morning
                 ''schedule something flexible around next Monday'' = Inr r"
    and p: "start_time r = Some st" "ordinal wednesday_morning < ordinal st"
       "ordinal st \<le> ordinal wednesday_morning + 7" "weekday st = 0"
       "time_of st = \<lparr> hour = hour (business_hours_start default_context),
                             minute = minute (business_hours_start default_context),
                             second = 0, microsecond = 0 \<rparr>"
       "flexibility r = ''flexible''" "duration r = preferred_meeting_duration default_context"
       "\<not> is_clarification (fst (handle_booking_request always_free default_context r))"
       "if check_business_hours default_context st
               then take 1 (snd (snd (handle_booking_request always_free default_context r)))
                    = [CallCheckAvailability st (duration r)]
               else handle_booking_request always_free default_context r
                    = (OutsideBusinessHours st, default_context, [])"
    using flexible_next_monday[OF b wednesday_morning_facts(1,3), of always_free] by blast
  have o: "ordinal st = 739264"
    using p(2,3,4) unfolding weekday_def wednesday_morning_facts(4) by presburger
  have t: "time_of st = \<lparr> hour = 9, minute = 0, second = 0, microsecond = 0 \<rparr>"
    using p(5) by (simp add: default_context_def)
  have c: "check_business_hours default_context st"
    by (simp add: check_business_hours_def t time_le_def default_context_def)
  have d: "take 1 (snd (snd (handle_booking_request always_free default_context r)))
             = [CallCheckAvailability st 60]"
    using p(9) c p(7) by (simp add: default_context_def)
  show ?thesis
    using b wednesday_morning_facts(1) r7 f p(1,4,6,8) o t d by blast
qed


section \<open>The booking handler\<close>

text \<open>
  C7 (the code departs from the claim).  The claim: a request whose start time is null
  always gets the clarification request and no calendar operation.  The handler formats
  the clarification from \<open>request.summary.lower()\<close>; the summary is an optional field
  (its default is \<open>None\<close>, and the extraction passes on a JSON \<open>null\<close>), and on a null
  summary the call raises, the handler's \<open>except\<close> catches it, and the reply is the
  generic error message.  No calendar call is made and the context is unchanged.
\<close>

theorem null_summary_breaks_clarification:
  "handle_booking_request avail ctx (r\<lparr> summary := None, start_time := None \<rparr>)
   = (BookingError, ctx, [])"
  by (simp add: handle_booking_request_def)

lemma unresolved_time_asks:
  "start_time r = None \<Longrightarrow> summary r = Some title \<Longrightarrow>
   handle_booking_request avail ctx r = (UnclearTime (lower title), ctx, [])"
  by (simp add: handle_booking_request_def)

lemma is_create_simps:
  "is_create (CallCheckAvailability t d) = False"
  "is_create (CallCreateEvent title t d descr) = True"
  "is_create (CallRescheduleEvent m t d) = False"
  by (simp_all add: is_create_def)

lemma scan_day_creates:
  "filter is_create (snd (scan_day avail flex d dur e cur sugg log)) = filter is_create log"
proof (induction avail flex d dur e cur sugg log rule: scan_day.induct)
  case (1 avail flex d dur e cur sugg log)
  show ?case
    apply (subst scan_day.simps)
    using 1 apply (auto simp: is_create_simps split: sum.splits)
    done
qed

lemma scan_days_creates:
  "filter is_create (snd (scan_days avail ctx flex dur base ds sugg log)) = filter is_create log"
proof (induction ds arbitrary: sugg log)
  case Nil
  show ?case by simp
next
  case (Cons d ds)
  show ?case
    using scan_day_creates
    by (auto simp: Cons split: sum.splits prod.splits slot_scan.splits)
       (metis snd_conv)+
qed

lemma suggest_creates:
  "filter is_create (snd (suggest_alternative_times avail ctx st dur flex)) = []"
  by (simp add: suggest_alternative_times_def scan_days_creates)


lemma no_create_iff: "\<not> list_ex is_create xs \<longleftrightarrow> filter is_create xs = []"
  by (induction xs) (auto simp: list_ex_iff)

text \<open>
  C8.  Whatever the booking handler returns: when the requested start is busy and the
  alternative search finds nothing, the pending booking is what it was and no
  \<open>create_event\<close> call was made.  The pending booking changes, or a \<open>create_event\<close> call
  is made, only when the start is resolved and within the business hours, and then
  either on the success path (the start is free: the event is created and the pending
  booking cleared) or on the conflict path with a non-empty list of alternatives (the
  request becomes the pending booking, nothing is created).
\<close>

theorem booking_pending_frame:
  assumes run: "handle_booking_request avail ctx request = (reply, ctx', log)"
  shows "(\<forall>st. start_time request = Some st \<and> \<not> avail st (duration request)
              \<and> fst (suggest_alternative_times avail ctx st (duration request)
                        (flexibility request)) = Inr []
            \<longrightarrow> pending_booking ctx' = pending_booking ctx \<and> \<not> list_ex is_create log)
       \<and> (pending_booking ctx' \<noteq> pending_booking ctx \<or> list_ex is_create log
            \<longrightarrow> (\<exists>st. start_time request = Some st \<and> check_business_hours ctx st
                    \<and> (if avail st (duration request)
                        then pending_booking ctx' = None \<and> list_ex is_create log
                        else pending_booking ctx' = Some (PendingRequest request)
                             \<and> \<not> list_ex is_create log
                             \<and> (\<exists>alts. alts \<noteq> []
                                   \<and> fst (suggest_alternative_times avail ctx st (duration request)
                                            (flexibility request)) = Inr alts))))"
proof (cases "start_time request")
  case None
  then show ?thesis
    using run by (auto simp: handle_booking_request_def split: option.splits)
next
  case (Some st)
  obtain res slog where s: "suggest_alternative_times avail ctx st (duration request)
                              (flexibility request) = (res, slog)"
    by (cases "suggest_alternative_times avail ctx st (duration request) (flexibility request)")
  have nc: "\<not> list_ex is_create slog"
    using suggest_creates[of avail ctx st "duration request" "flexibility request"]
    by (simp add: s no_create_iff)
  show ?thesis
    using run Some s nc
    by (auto simp: handle_booking_request_def Let_def is_create_simps
             split: option.splits if_splits sum.splits)
qed


lemma long_search:
  "suggest_alternative_times never_free default_context (mk_datetime 739264 9 0 0 0) 600 ''rigid''
   = (Inr [], [])"
  by code_simp

lemma long_request_handled:
  "handle_booking_request never_free default_context long_request
   = (NoAlternatives (mk_datetime 739264 9 0 0 0), default_context,
      [CallCheckAvailability (mk_datetime 739264 9 0 0 0) 600])"
proof -
  have t: "time_of (mk_datetime 739264 9 0 0 0)
           = \<lparr> hour = 9, minute = 0, second = 0, microsecond = 0 \<rparr>"
    by (simp add: time_of_mk_datetime)
  have c: "check_business_hours default_context (mk_datetime 739264 9 0 0 0)"
    by (simp add: check_business_hours_def t time_le_def default_context_def)
  show ?thesis
    by (simp add: handle_booking_request_def long_request_def c never_free_def[abs_def, symmetric]
          long_search)
       (simp add: never_free_def)
qed

theorem booking_pending_frame_witness:
  "handle_booking_request never_free default_context long_request
   = (NoAlternatives (mk_datetime 739264 9 0 0 0), default_context,
      [CallCheckAvailability (mk_datetime 739264 9 0 0 0) 600])
   \<and> start_time long_request = Some (mk_datetime 739264 9 0 0 0)
   \<and> \<not> never_free (mk_datetime 739264 9 0 0 0) (duration long_request)
   \<and> fst (suggest_alternative_times never_free default_context (mk_datetime 739264 9 0 0 0)
            (duration long_request) (flexibility long_request)) = Inr []
   \<and> pending_booking default_context = pending_booking default_context
   \<and> \<not> list_ex is_create [CallCheckAvailability (mk_datetime 739264 9 0 0 0) 600]"
proof -
  have a: "start_time long_request = Some (mk_datetime 739264 9 0 0 0)"
    "duration long_request = 600" "flexibility long_request = ''rigid''"
    by (simp_all add: long_request_def)
  have b: "\<not> never_free (mk_datetime 739264 9 0 0 0) (duration long_request)"
    by (simp add: never_free_def)
  have c: "fst (suggest_alternative_times never_free default_context (mk_datetime 739264 9 0 0 0)
            (duration long_request) (flexibility long_request)) = Inr []"
    by (simp add: a long_search)
  show ?thesis
    using booking_pending_frame[OF long_request_handled] a(1) b c long_request_handled
    by blast
qed


section \<open>The conversation history\<close>

lemma keep_last_length: "length (keep_last n xs) \<le> n"
  by (simp add: keep_last_def)

lemma keep_last_short: "length xs \<le> n \<Longrightarrow> keep_last n xs = xs"
  by (simp add: keep_last_def)

lemma keep_last_map: "map f (keep_last n xs) = keep_last n (map f xs)"
  by (simp add: keep_last_def drop_map)

lemma keep_last_append: "keep_last n (keep_last n xs @ ys) = keep_last n (xs @ ys)"
  by (cases "length xs \<le> n") (auto simp: keep_last_def add.commute)

lemma handle_booking_history:
  "conversation_history (fst (snd (handle_booking_request avail ctx r)))
   = conversation_history ctx"
  by (simp add: handle_booking_request_def Let_def
        split: option.splits prod.splits sum.splits)

lemma handle_reschedule_history:
  "conversation_history (fst (snd (handle_reschedule_meeting ctx t))) = conversation_history ctx"
  by (simp add: handle_reschedule_meeting_def Let_def
        split: option.splits prod.splits sum.splits)

lemma dispatch_history:
  assumes "dispatch ctx t = Inr (reply, ctx2, log)"
  shows "conversation_history ctx2 = conversation_history ctx"
proof (cases "recognized t")
  case BookMeeting
  then obtain r where "handle_booking_request (cal t) ctx r = (reply, ctx2, log)"
    using assms by (auto simp: dispatch_def bind_err_def split: sum.splits)
  then show ?thesis
    using handle_booking_history[of "cal t" ctx r] by simp
next
  case RescheduleMeeting
  then have "handle_reschedule_meeting ctx t = (reply, ctx2, log)"
    using assms by (simp add: dispatch_def)
  then show ?thesis
    using handle_reschedule_history[of ctx t] by simp
qed (use assms in \<open>auto simp: dispatch_def\<close>)

lemma set_assistant_keys: "map entry_key (set_assistant r h) = map entry_key h"
proof (cases "h = []")
  case True
  then show ?thesis by (simp add: set_assistant_def)
next
  case False
  then have "h = butlast h @ [last h]" by simp
  then have "map entry_key h = map entry_key (butlast h) @ [entry_key (last h)]"
    by (metis list.simps(8,9) map_append)
  then show ?thesis
    using False by (simp add: set_assistant_def entry_key_def)
qed

lemma run_history:
  "map entry_key (conversation_history (snd (run ctx t)))
   = keep_last 10 (map entry_key (conversation_history ctx) @ [turn_key t])"
proof -
  define appended where "appended = conversation_history ctx
                       @ [\<lparr> user = user_text t, timestamp = stamp t, assistant = None \<rparr>]"
  define ctx1 where "ctx1 = ctx\<lparr> conversation_history :=
                        (if length appended > 10 then keep_last 10 appended else appended) \<rparr>"
  have h1: "conversation_history ctx1 = keep_last 10 appended"
    by (simp add: ctx1_def keep_last_short)
  have k: "map entry_key appended = map entry_key (conversation_history ctx) @ [turn_key t]"
    by (simp add: appended_def entry_key_def turn_key_def)
  have "map entry_key (conversation_history (snd (run ctx t)))
        = map entry_key (conversation_history ctx1)"
  proof (cases "dispatch ctx1 t")
    case (Inl e)
    then show ?thesis
      by (simp add: run_def Let_def appended_def[symmetric] ctx1_def[symmetric])
  next
    case (Inr res)
    obtain reply ctx2 log where res: "res = (reply, ctx2, log)"
      by (cases res)
    have "conversation_history ctx2 = conversation_history ctx1"
      using dispatch_history Inr res by simp
    then show ?thesis
      using Inr res
      by (simp add: run_def Let_def appended_def[symmetric] ctx1_def[symmetric]
            set_assistant_keys)
  qed
  then show ?thesis
    by (simp add: h1 keep_last_map k)
qed

text \<open>
  C9.  Starting from a history of at most ten entries (a new context has none), after
  every sequence of turns the history has at most ten entries, and its entries are, in
  order, the last ten of the old entries followed by the turns' entries: the oldest are
  dropped first and the order of the others is kept.  An entry is identified by the
  user's text and its time stamp.
\<close>

theorem history_bounded_fifo:
  assumes "length (conversation_history ctx) \<le> 10"
  shows "length (conversation_history (run_all ctx ts)) \<le> 10
       \<and> map entry_key (conversation_history (run_all ctx ts))
         = keep_last 10 (map entry_key (conversation_history ctx) @ map turn_key ts)"
  using assms
proof (induction ts arbitrary: ctx)
  case Nil
  then show ?case by (simp add: keep_last_short)
next
  case (Cons t ts)
  have len: "length (conversation_history (snd (run ctx t))) \<le> 10"
    using keep_last_length[of 10 "map entry_key (conversation_history ctx) @ [turn_key t]"]
      arg_cong[OF run_history[of ctx t], of length] by simp
  show ?case
    using Cons.IH[OF len]
    by (simp add: run_history keep_last_append)
qed


theorem history_bounded_fifo_witness:
  "length (conversation_history default_context) \<le> 10
   \<and> length (conversation_history (run_all default_context twelve_turns)) \<le> 10
   \<and> map entry_key (conversation_history (run_all default_context twelve_turns))
     = map (\<lambda>s. (s, ''2025-01-08T10:15:42''))
           [''three'', ''four'', ''five'', ''six'', ''seven'', ''eight'', ''nine'', ''ten'', ''eleven'',
            ''twelve'']"
proof -
  have h: "length (conversation_history default_context) \<le> 10"
    by (simp add: default_context_def)
  have k: "keep_last 10 (map entry_key (conversation_history default_context)
                         @ map turn_key twelve_turns)
           = map (\<lambda>s. (s, ''2025-01-08T10:15:42''))
               [''three'', ''four'', ''five'', ''six'', ''seven'', ''eight'', ''nine'', ''ten'', ''eleven'',
            ''twelve'']"
    by (simp add: default_context_def twelve_turns_def turn_key_def hello_turn_def keep_last_def)
  show ?thesis
    using history_bounded_fifo[OF h, of twelve_turns] h by (simp add: k)
qed


section \<open>The alternative-slot search\<close>

lemma days_rigid: "[0 ..< search_days ''rigid''] = [0, 1]"
  by code_simp

lemma increment_rigid: "increment_of ''rigid'' d = 30"
  by (simp add: increment_of_def time_increments_def)

lemmas eval_simps =
  suggest_alternative_times_def days_rigid increment_rigid scan_day.simps
  bind_err_def timedelta_days_def timedelta_minutes_def timedelta_us_def dt_add_def
  in_range_def max_ordinal_def replace_hm_def ordinal_def mk_datetime_def dt_le_def
  default_context_def


lemma c6_eval:
  "fst (suggest_alternative_times busy_until_four default_context
          (mk_datetime 739259 12 15 42 123456) 60 ''rigid'')
   = Inr [mk_datetime 739259 16 0 42 123456, mk_datetime 739260 9 0 42 123456,
          mk_datetime 739260 9 30 42 123456, mk_datetime 739260 10 0 42 123456,
          mk_datetime 739260 10 30 42 123456]"
  by (simp add: eval_simps busy_until_four_def)


lemma scan_day_slots:
  "fst (scan_day avail flex d dur e cur sugg log) = Inr res \<Longrightarrow>
   \<exists>m. slots res = sugg @ m \<and> list_all (\<lambda>c. avail c dur) m"
proof (induction avail flex d dur e cur sugg log arbitrary: res rule: scan_day.induct)
  case (1 avail flex d dur e cur sugg log)
  from "1.prems" show ?case
    apply (subst (asm) scan_day.simps)
    apply (auto split: sum.splits if_splits dest!: "1.IH")
    done
qed

lemma scan_day_count:
  "fst (scan_day avail flex d dur e cur sugg log) = Inr res \<Longrightarrow> length sugg < 5 \<Longrightarrow>
   (case res of Full f \<Rightarrow> length f = 5 | Partial f \<Rightarrow> length f < 5)"
proof (induction avail flex d dur e cur sugg log arbitrary: res rule: scan_day.induct)
  case (1 avail flex d dur e cur sugg log)
  from "1.prems" show ?case
    apply (subst (asm) scan_day.simps)
    apply (auto split: sum.splits if_splits dest!: "1.IH")
    done
qed



lemma scan_days_slots:
  "fst (scan_days avail ctx flex dur base ds sugg log) = Inr found \<Longrightarrow>
   \<exists>m. found = sugg @ m \<and> list_all (\<lambda>c. avail c dur) m"
proof (induction ds arbitrary: sugg log)
  case Nil
  then show ?case by simp
next
  case (Cons d ds)
  from Cons.prems obtain cur s e where
    run: "fst (case scan_day avail flex d dur e s sugg log of
                      (Inl err, log1) \<Rightarrow> (Inl err, log1)
                    | (Inr (Full found), log1) \<Rightarrow> (Inr found, log1)
                    | (Inr (Partial found), log1) \<Rightarrow>
                        scan_days avail ctx flex dur base ds found log1) = Inr found"
    by (auto split: sum.splits)
  obtain r log1 where sd: "scan_day avail flex d dur e s sugg log = (r, log1)"
    by (cases "scan_day avail flex d dur e s sugg log")
  show ?case
  proof (cases r)
    case (Inl err)
    then show ?thesis using run sd by simp
  next
    case (Inr res)
    obtain m1 where m1: "slots res = sugg @ m1" "list_all (\<lambda>c. avail c dur) m1"
      using scan_day_slots[of avail flex d dur e s sugg log res] sd Inr by auto
    show ?thesis
    proof (cases res)
      case (Full f)
      then show ?thesis using run sd Inr m1 by auto
    next
      case (Partial f)
      then have "fst (scan_days avail ctx flex dur base ds f log1) = Inr found"
        using run sd Inr by simp
      then obtain m2 where "found = f @ m2" "list_all (\<lambda>c. avail c dur) m2"
        using Cons.IH by blast
      then show ?thesis using m1 Partial by auto
    qed
  qed
qed

lemma scan_days_count:
  "fst (scan_days avail ctx flex dur base ds sugg log) = Inr found \<Longrightarrow> length sugg < 5 \<Longrightarrow>
   length found \<le> 5"
proof (induction ds arbitrary: sugg log)
  case Nil
  then show ?case by simp
next
  case (Cons d ds)
  from Cons.prems(1) obtain s e where
    run: "fst (case scan_day avail flex d dur e s sugg log of
                      (Inl err, log1) \<Rightarrow> (Inl err, log1)
                    | (Inr (Full found), log1) \<Rightarrow> (Inr found, log1)
                    | (Inr (Partial found), log1) \<Rightarrow>
                        scan_days avail ctx flex dur base ds found log1) = Inr found"
    by (auto split: sum.splits)
  obtain r log1 where sd: "scan_day avail flex d dur e s sugg log = (r, log1)"
    by (cases "scan_day avail flex d dur e s sugg log")
  show ?case
  proof (cases r)
    case (Inl err)
    then show ?thesis using run sd by simp
  next
    case (Inr res)
    have c: "case res of Full f \<Rightarrow> length f = 5 | Partial f \<Rightarrow> length f < 5"
      using scan_day_count[of avail flex d dur e s sugg log res] sd Inr Cons.prems(2) by simp
    show ?thesis
    proof (cases res)
      case (Full f)
      then show ?thesis using run sd Inr c by auto
    next
      case (Partial f)
      then have "fst (scan_days avail ctx flex dur base ds f log1) = Inr found" "length f < 5"
        using run sd Inr c by simp_all
      then show ?thesis using Cons.IH by blast
    qed
  qed
qed

lemma suggest_at_most_five:
  "fst (suggest_alternative_times avail ctx requested dur flex) = Inr found \<Longrightarrow>
   length found \<le> 5"
  using scan_days_count[of avail ctx flex dur requested "[0 ..< search_days flex]" "[]" "[]" found]
  by (simp add: suggest_alternative_times_def)

lemma suggest_all_available:
  "fst (suggest_alternative_times avail ctx requested dur flex) = Inr found \<Longrightarrow>
   list_all (\<lambda>c. avail c dur) found"
  using scan_days_slots[of avail ctx flex dur requested "[0 ..< search_days flex]" "[]" "[]" found]
  by (auto simp: suggest_alternative_times_def)









text \<open>
  C6 (the code departs from the claim).  The search takes each day's first and last
  slot from the requested time by replacing its hour and minute only, so the seconds
  and microseconds of the requested time stay in every candidate and in the bound the
  candidates are compared with.  A start that carries seconds (as "in 2 hours" gives:
  now plus two hours) makes the search accept candidates whose interval ends after the
  business hours: with business hours 09:00 to 17:00, the requested start
  12:15:42.123456 and a calendar that is busy until 16:00, the first of the five
  alternatives for a 60 minute meeting is 16:00:42.123456, which ends at
  17:00:42.123456.
\<close>

theorem alternative_ends_after_business_hours:
  "fst (suggest_alternative_times busy_until_four default_context
          (mk_datetime 739259 12 15 42 123456) 60 ''rigid'')
   = Inr [mk_datetime 739259 16 0 42 123456, mk_datetime 739260 9 0 42 123456,
          mk_datetime 739260 9 30 42 123456, mk_datetime 739260 10 0 42 123456,
          mk_datetime 739260 10 30 42 123456]
   \<and> bind_err (timedelta_minutes 60) (dt_add (mk_datetime 739259 16 0 42 123456))
     = Inr (mk_datetime 739259 17 0 42 123456)
   \<and> \<not> time_le (time_of (mk_datetime 739259 17 0 42 123456))
               (business_hours_end default_context)
   \<and> \<not> check_business_hours default_context (mk_datetime 739259 17 0 42 123456)"
proof -
  have d: "bind_err (timedelta_minutes 60) (dt_add (mk_datetime 739259 16 0 42 123456))
     = Inr (mk_datetime 739259 17 0 42 123456)"
    by (simp add: bind_err_def timedelta_minutes_def timedelta_us_def dt_add_def in_range_def
          max_ordinal_def mk_datetime_def)
  have t: "\<not> time_le (time_of (mk_datetime 739259 17 0 42 123456))
               (business_hours_end default_context)"
    by (simp add: time_of_mk_datetime time_le_def default_context_def)
  show ?thesis
    using c6_eval d t by (simp add: check_business_hours_def)
qed


section \<open>The fail-soft contract of the calendar collaborator\<close>

lemma check_availability_fails:
  "fst (check_availability_body api st start dur buffer_minutes) = Inl e \<Longrightarrow>
   fst (check_availability api st start dur buffer_minutes) = False"
  by (cases "check_availability_body api st start dur buffer_minutes")
     (simp add: check_availability_def)

lemma check_availability_api_fails:
  assumes "\<forall>a b n. \<exists>e. events_list api a b n = Inl e" "\<forall>k. availability_cache st k = None"
  shows "fst (check_availability api st start dur buffer_minutes) = False"
proof (cases "bind_err (timedelta_minutes buffer_minutes) (\<lambda>buffer_delta.
           bind_err (dt_add start (- buffer_delta)) (\<lambda>check_start.
           bind_err (bind_err (timedelta_minutes dur) (dt_add start)) (\<lambda>slot_end.
           bind_err (dt_add slot_end buffer_delta) (\<lambda>check_end.
           Inr (check_start, check_end)))))")
  case (Inl e)
  then show ?thesis
    by (simp add: check_availability_def check_availability_body_def)
next
  case (Inr p)
  obtain cs ce where p: "p = (cs, ce)"
    by (cases p)
  obtain e where "events_list api cs ce None = Inl e"
    using assms(1) by blast
  then show ?thesis
    using Inr p assms(2) by (simp add: check_availability_def check_availability_body_def)
qed

lemma create_event_fails:
  "create_event_body api title start dur descr guests location notify = Inl e \<Longrightarrow>
   create_event api title start dur descr guests location notify = failure_text e"
  by (cases e) (simp_all add: create_event_def failure_text_def error_text_def)

lemma get_upcoming_events_fails:
  "fst (get_upcoming_events_body api st utc_now limit days_ahead) = Inl e \<Longrightarrow>
   fst (get_upcoming_events api st utc_now limit days_ahead) = []"
  by (cases "get_upcoming_events_body api st utc_now limit days_ahead")
     (simp add: get_upcoming_events_def)

lemma cancel_event_fails:
  "events_delete api (get_or (fst (find_event_by_reference api st utc_now ref)) []) = Inl e \<Longrightarrow>
   fst (cancel_event api st utc_now ref) = False"
  by (cases "find_event_by_reference api st utc_now ref") (simp add: cancel_event_def)

lemma reschedule_event_fails:
  "reschedule_body api (get_or (fst (find_event_by_reference api st utc_now ref)) [])
     new_start new_duration = Inl e \<Longrightarrow>
   fst (reschedule_event api st utc_now ref new_start new_duration) = False"
  by (cases "find_event_by_reference api st utc_now ref") (simp add: reschedule_event_def)

lemma get_busy_times_fails:
  "bind_err (events_list api start finish None) (busy_intervals api) = Inl e \<Longrightarrow>
   get_busy_times api start finish = []"
  by (simp add: get_busy_times_def)

lemma starts_with_append: "starts_with p (p @ s)"
  by (induction p) simp_all

lemma failure_text_prefix: "starts_with '' Failed to create event: '' (failure_text e)"
  unfolding failure_text_def by (rule starts_with_append)

lemma create_event_api_fails:
  assumes "\<forall>b n. \<exists>e. events_insert api b n = Inl e"
  shows "starts_with '' Failed to create event: ''
           (create_event api title start dur descr guests location notify)"
proof -
  have "\<exists>e. create_event_body api title start dur descr guests location notify = Inl e"
  proof (cases "bind_err (timedelta_minutes dur) (dt_add start)")
    case (Inl e)
    then show ?thesis
      by (simp add: create_event_body_def bind_err_simps)
  next
    case (Inr slot_end)
    obtain e where "events_insert api
                 \<lparr> eb_summary = title, eb_description = descr, eb_start = start,
                   eb_end = slot_end,
                   eb_location = (if location = [] then None else Some location),
                   eb_attendees = (case guests of
                                     None \<Rightarrow> None
                                   | Some g \<Rightarrow> if g = [] then None else Some g) \<rparr>
                 notify = Inl e"
      using assms by blast
    then show ?thesis
      using Inr by (simp add: create_event_body_def bind_err_simps)
  qed
  then obtain e where
    "create_event_body api title start dur descr guests location notify = Inl e" ..
  then have "create_event api title start dur descr guests location notify = failure_text e"
    by (rule create_event_fails)
  then show ?thesis
    by (simp add: failure_text_prefix)
qed

lemma get_upcoming_events_api_fails:
  assumes "\<forall>a b n. \<exists>e. events_list api a b n = Inl e" "\<forall>k. upcoming_cache st k = None"
  shows "fst (get_upcoming_events api st utc_now limit days_ahead) = []"
proof (cases "bind_err (timedelta_days days_ahead) (dt_add utc_now)")
  case (Inl e)
  then show ?thesis
    by (simp add: get_upcoming_events_def get_upcoming_events_body_def)
next
  case (Inr future_time)
  obtain e where "events_list api utc_now future_time (Some limit) = Inl e"
    using assms(1) by blast
  then show ?thesis
    using Inr assms(2)
    by (simp add: get_upcoming_events_def get_upcoming_events_body_def bind_err_simps)
qed

lemma cancel_event_api_fails:
  assumes "\<forall>i. \<exists>e. events_delete api i = Inl e"
  shows "fst (cancel_event api st utc_now ref) = False"
proof (cases "find_event_by_reference api st utc_now ref")
  case (Pair found st1)
  obtain e where "events_delete api (get_or found []) = Inl e"
    using assms by blast
  then show ?thesis
    using Pair by (simp add: cancel_event_def)
qed

lemma reschedule_event_api_fails:
  assumes "\<forall>i. \<exists>e. events_get api i = Inl e"
  shows "fst (reschedule_event api st utc_now ref new_start new_duration) = False"
proof (cases "find_event_by_reference api st utc_now ref")
  case (Pair found st1)
  obtain e where "events_get api (get_or found []) = Inl e"
    using assms by blast
  then have "reschedule_body api (get_or found []) new_start new_duration = Inl e"
    by (simp add: reschedule_body_def bind_err_simps)
  then show ?thesis
    using Pair by (simp add: reschedule_event_def)
qed

lemma get_busy_times_api_fails:
  assumes "\<forall>a b n. \<exists>e. events_list api a b n = Inl e"
  shows "get_busy_times api start finish = []"
proof -
  obtain e where "events_list api start finish None = Inl e"
    using assms by blast
  then show ?thesis
    by (simp add: get_busy_times_def bind_err_simps)
qed

text \<open>
  C4 (corrected).  No operation of the calendar collaborator raises: each is a total
  function here because every statement of its body stands in a \<open>try\<close> whose \<open>except\<close>
  clauses return a value.  Whatever exception \<open>e\<close> the body raises (an error of the API,
  an overflowing time, an event without its \<open>start\<close> key), \<open>check_availability\<close>,
  \<open>cancel_event\<close> and \<open>reschedule_event\<close> return \<open>False\<close>, \<open>get_upcoming_events\<close> and
  \<open>get_busy_times\<close> return the empty list, and \<open>create_event\<close> returns a message that
  starts with " Failed to create event: ", which is neither \<open>False\<close> nor an empty list.
  The second half restates this for an API that refuses the request the operation
  sends, with nothing cached.
\<close>

theorem collaborator_fail_soft:
  "(fst (check_availability_body api st start dur buffer_minutes) = Inl e
      \<longrightarrow> fst (check_availability api st start dur buffer_minutes) = False)
   \<and> (create_event_body api title start dur descr guests location notify = Inl e
      \<longrightarrow> create_event api title start dur descr guests location notify = failure_text e)
   \<and> (fst (get_upcoming_events_body api st utc_now limit days_ahead) = Inl e
      \<longrightarrow> fst (get_upcoming_events api st utc_now limit days_ahead) = [])
   \<and> (events_delete api (get_or (fst (find_event_by_reference api st utc_now ref)) []) = Inl e
      \<longrightarrow> fst (cancel_event api st utc_now ref) = False)
   \<and> (reschedule_body api (get_or (fst (find_event_by_reference api st utc_now ref)) [])
        new_start new_duration = Inl e
      \<longrightarrow> fst (reschedule_event api st utc_now ref new_start new_duration) = False)
   \<and> (bind_err (events_list api start finish None) (busy_intervals api) = Inl e
      \<longrightarrow> get_busy_times api start finish = [])
   \<and> ((\<forall>a b n. \<exists>x. events_list api a b n = Inl x)
      \<longrightarrow> ((\<forall>k. availability_cache st k = None)
             \<longrightarrow> fst (check_availability api st start dur buffer_minutes) = False)
          \<and> ((\<forall>k. upcoming_cache st k = None)
             \<longrightarrow> fst (get_upcoming_events api st utc_now limit days_ahead) = [])
          \<and> get_busy_times api start finish = [])
   \<and> ((\<forall>b n. \<exists>x. events_insert api b n = Inl x)
      \<longrightarrow> starts_with '' Failed to create event: ''
            (create_event api title start dur descr guests location notify))
   \<and> ((\<forall>i. \<exists>x. events_delete api i = Inl x)
      \<longrightarrow> fst (cancel_event api st utc_now ref) = False)
   \<and> ((\<forall>i. \<exists>x. events_get api i = Inl x)
      \<longrightarrow> fst (reschedule_event api st utc_now ref new_start new_duration) = False)"
proof (intro conjI impI, goal_cases)
  case 1
  then show ?case by (rule check_availability_fails)
next
  case 2
  then show ?case by (rule create_event_fails)
next
  case 3
  then show ?case by (rule get_upcoming_events_fails)
next
  case 4
  then show ?case by (rule cancel_event_fails)
next
  case 5
  then show ?case by (rule reschedule_event_fails)
next
  case 6
  then show ?case by (rule get_busy_times_fails)
next
  case 7
  then show ?case by (rule check_availability_api_fails)
next
  case 8
  then show ?case by (rule get_upcoming_events_api_fails)
next
  case 9
  then show ?case by (rule get_busy_times_api_fails)
next
  case 10
  then show ?case by (rule create_event_api_fails)
next
  case 11
  then show ?case by (rule cancel_event_api_fails)
next
  case 12
  then show ?case by (rule reschedule_event_api_fails)
qed

lemma failing_list: "events_list failing_api a b n = Inl (HttpError (Some ''Forbidden''))"
  by (simp add: failing_api_def)

lemma in_range_wm60:
  "bind_err (timedelta_minutes 60) (dt_add wednesday_morning)
   = Inr (Datetime (micros wednesday_morning + 60 * us_per_minute))"
  by (simp add: bind_err_def timedelta_minutes_def timedelta_us_def dt_add_def in_range_def
        max_ordinal_def wednesday_morning_def mk_datetime_def)

lemma failing_create_body:
  "create_event_body failing_api (Some ''Call'') wednesday_morning 60 [] None [] True
   = Inl (HttpError (Some ''Forbidden''))"
  by (simp add: create_event_body_def in_range_wm60 bind_err_simps failing_api_def)

theorem create_event_failure_counterexample:
  "create_event failing_api (Some ''Call'') wednesday_morning 60 [] None [] True
   = '' Failed to create event: Forbidden''
   \<and> \<not> false_or_empty
        (RText (create_event failing_api (Some ''Call'') wednesday_morning 60 [] None [] True))"
  by (simp add: create_event_def failing_create_body get_or_def false_or_empty_def)


theorem collaborator_fail_soft_witness:
  "fst (check_availability failing_api empty_caches wednesday_morning 60 0) = False
   \<and> starts_with '' Failed to create event: ''
        (create_event failing_api (Some ''Call'') wednesday_morning 60 [] None [] True)
   \<and> fst (get_upcoming_events failing_api empty_caches wednesday_morning 10 30) = []
   \<and> fst (cancel_event failing_api empty_caches wednesday_morning
            \<lparr> reference = ''standup'', ref_type = ''pattern_match'' \<rparr>) = False
   \<and> fst (reschedule_event failing_api empty_caches wednesday_morning
            \<lparr> reference = ''standup'', ref_type = ''pattern_match'' \<rparr>
            (mk_datetime 739260 14 0 0 0) (Some 30)) = False
   \<and> get_busy_times failing_api wednesday_morning (mk_datetime 739260 14 0 0 0) = []"
proof -
  have l: "\<forall>a b n. \<exists>x. events_list failing_api a b n = Inl x"
    and i: "\<forall>b n. \<exists>x. events_insert failing_api b n = Inl x"
    and d: "\<forall>i. \<exists>x. events_delete failing_api i = Inl x"
    and g: "\<forall>i. \<exists>x. events_get failing_api i = Inl x"
    by (simp_all add: failing_api_def)
  have c: "\<forall>k. availability_cache empty_caches k = None"
    "\<forall>k. upcoming_cache empty_caches k = None"
    by (simp_all add: empty_caches_def)
  show ?thesis
    using collaborator_fail_soft[of failing_api empty_caches wednesday_morning 60 0 _
        "Some ''Call''" "[]" None "[]" True wednesday_morning 10 30
        "\<lparr> reference = ''standup'', ref_type = ''pattern_match'' \<rparr>"
        "mk_datetime 739260 14 0 0 0" "Some 30" "mk_datetime 739260 14 0 0 0"]
      l i d g c
    by simp
qed


end
